theory Spec2Isabelle
  imports Main "HOL-Library.Word" "HOL-Library.AList"
begin

section \<open>Go values\<close>

text \<open>
  Go strings are byte sequences; \<open>string\<close> (a list of 8-bit characters) models them
  byte for byte. A value of type \<open>interface{}\<close> carries its dynamic type: there is
  one constructor for each dynamic type that the provider tests for or that the JSON
  decoder produces, one for \<open>int64\<close>, and \<open>VOther\<close> for a value of any other type.
  \<open>VGroups\<close> is \<open>posthog.Groups\<close>, a named map type distinct from
  \<open>map[string]interface{}\<close> (\<open>VMap\<close>); \<open>VPostHogProperties\<close> is the provider's
  struct \<open>PostHogProperties\<close> with its fields \<open>GroupProperties\<close> and
  \<open>PersonProperties\<close>. A Go map is an association list with distinct keys, wrapped in
  \<open>option\<close> because Go distinguishes the nil map (\<open>None\<close>) from an empty one
  (\<open>Some []\<close>). The type parameter \<open>'f\<close> stands for \<open>float64\<close>.
\<close>

datatype 'f any =
    VNil
  | VBool bool
  | VInt64 "64 word"
  | VFloat64 'f
  | VString string
  | VSlice "'f any list"
  | VMap "(string \<times> 'f any) list option"
  | VGroups "(string \<times> 'f any) list option"
  | VPostHogProperties
      "(string \<times> (string \<times> 'f any) list option) list option"
      "(string \<times> 'f any) list option"
  | VOther nat

type_synonym 'f Properties = "(string \<times> 'f any) list option"

datatype panic = InterfaceConversion

section \<open>The standard library, as far as the provider uses it\<close>

text \<open>
  Three pieces of the Go standard library are taken as parameters: the Unicode tables
  behind \<open>strconv.IsPrint\<close> for runes above Latin-1, \<open>strconv.ParseFloat(s, 64)\<close>
  (\<open>None\<close> when it returns an error) and the \<open>%v\<close> rendering of \<open>fmt\<close>.
  Everything else is written out below.
\<close>

record 'f stdlib =
  IsPrintTable :: "int \<Rightarrow> bool"
  ParseFloat :: "string \<Rightarrow> 'f option"
  Sprint :: "'f any \<Rightarrow> string"

subsection \<open>unicode/utf8\<close>

definition RuneError :: int where
  "RuneError = 0xFFFD"

definition byte :: "char \<Rightarrow> int" where
  "byte c = of_char c"

definition contb :: "int \<Rightarrow> bool" where
  "contb b = (0x80 \<le> b \<and> b \<le> 0xBF)"

text \<open>
  \<open>utf8.DecodeRuneInString\<close>: the rune at the head of the string and its width. The
  first byte gives the length of the sequence and the range that the second byte must
  lie in (the tables \<open>first\<close> and \<open>acceptRanges\<close>); every failure is
  \<open>(RuneError, 1)\<close>.
\<close>

definition firstSize :: "int \<Rightarrow> nat" where
  "firstSize s0 = (if s0 < 0xE0 then 2 else if s0 < 0xF0 then 3 else 4)"

definition acceptLo :: "int \<Rightarrow> int" where
  "acceptLo s0 = (if s0 = 0xE0 then 0xA0 else if s0 = 0xF0 then 0x90 else 0x80)"

definition acceptHi :: "int \<Rightarrow> int" where
  "acceptHi s0 = (if s0 = 0xED then 0x9F else if s0 = 0xF4 then 0x8F else 0xBF)"

fun decodeSequence :: "int \<Rightarrow> int list \<Rightarrow> int \<times> nat" where
  "decodeSequence s0 [s1] =
     (if s1 < acceptLo s0 \<or> acceptHi s0 < s1 then (RuneError, 1)
      else ((s0 mod 32) * 64 + s1 mod 64, 2))"
| "decodeSequence s0 [s1, s2] =
     (if s1 < acceptLo s0 \<or> acceptHi s0 < s1 then (RuneError, 1)
      else if \<not> contb s2 then (RuneError, 1)
      else ((s0 mod 16) * 4096 + (s1 mod 64) * 64 + s2 mod 64, 3))"
| "decodeSequence s0 [s1, s2, s3] =
     (if s1 < acceptLo s0 \<or> acceptHi s0 < s1 then (RuneError, 1)
      else if \<not> contb s2 then (RuneError, 1)
      else if \<not> contb s3 then (RuneError, 1)
      else ((s0 mod 8) * 262144 + (s1 mod 64) * 4096 + (s2 mod 64) * 64 + s3 mod 64, 4))"
| "decodeSequence s0 bs = (RuneError, 1)"

fun DecodeRuneInString :: "string \<Rightarrow> int \<times> nat" where
  "DecodeRuneInString [] = (RuneError, 0)"
| "DecodeRuneInString (c # cs) =
     (let s0 = byte c in
      if s0 < 0x80 then (s0, 1)
      else if s0 < 0xC2 \<or> 0xF4 < s0 then (RuneError, 1)
      else if length cs < firstSize s0 - 1 then (RuneError, 1)
      else decodeSequence s0 (map byte (take (firstSize s0 - 1) cs)))"

text \<open>
  \<open>utf8.EncodeRune\<close>: negative values, surrogates and values past U+10FFFF are written
  as U+FFFD.
\<close>

definition EncodeRune :: "int \<Rightarrow> string" where
  "EncodeRune r =
     (if r < 0 then [char_of (0xEF :: int), char_of (0xBF :: int), char_of (0xBD :: int)]
      else if r \<le> 0x7F then [char_of r]
      else if r \<le> 0x7FF then [char_of (0xC0 + r div 64), char_of (0x80 + r mod 64)]
      else if 0x10FFFF < r \<or> (0xD800 \<le> r \<and> r \<le> 0xDFFF)
        then [char_of (0xEF :: int), char_of (0xBF :: int), char_of (0xBD :: int)]
      else if r \<le> 0xFFFF
        then [char_of (0xE0 + r div 4096), char_of (0x80 + (r div 64) mod 64),
              char_of (0x80 + r mod 64)]
      else [char_of (0xF0 + r div 262144), char_of (0x80 + (r div 4096) mod 64),
            char_of (0x80 + (r div 64) mod 64), char_of (0x80 + r mod 64)])"

subsection \<open>strconv.Quote, the \<open>%q\<close> verb of fmt on a string\<close>

definition lowerhex :: "int \<Rightarrow> char" where
  "lowerhex n = ''0123456789abcdef'' ! nat (n mod 16)"

definition IsPrint :: "(int \<Rightarrow> bool) \<Rightarrow> int \<Rightarrow> bool" where
  "IsPrint tbl r =
     (if r \<le> 0xFF then
        (if 0x20 \<le> r \<and> r \<le> 0x7E then True
         else if 0xA1 \<le> r \<and> r \<le> 0xFF then r \<noteq> 0xAD
         else False)
      else tbl r)"

text \<open>
  \<open>appendEscapedRune\<close> for the double quote as the quote character, without the
  ASCII-only and graphic-only modes. Its branch for invalid runes is left out: the runes
  come from \<open>DecodeRuneInString\<close>.
\<close>

definition appendEscapedRune :: "(int \<Rightarrow> bool) \<Rightarrow> int \<Rightarrow> string" where
  "appendEscapedRune tbl r =
     (if r = 0x22 \<or> r = 0x5C then [CHR 0x5C, char_of r]
      else if IsPrint tbl r then EncodeRune r
      else if r = 0x07 then [CHR 0x5C, CHR ''a'']
      else if r = 0x08 then [CHR 0x5C, CHR ''b'']
      else if r = 0x0C then [CHR 0x5C, CHR ''f'']
      else if r = 0x0A then [CHR 0x5C, CHR ''n'']
      else if r = 0x0D then [CHR 0x5C, CHR ''r'']
      else if r = 0x09 then [CHR 0x5C, CHR ''t'']
      else if r = 0x0B then [CHR 0x5C, CHR ''v'']
      else if r < 0x20 \<or> r = 0x7F
        then [CHR 0x5C, CHR ''x'', lowerhex (r div 16), lowerhex r]
      else if r < 0x10000
        then [CHR 0x5C, CHR ''u'', lowerhex (r div 4096), lowerhex (r div 256),
              lowerhex (r div 16), lowerhex r]
      else [CHR 0x5C, CHR ''U'', lowerhex (r div 268435456), lowerhex (r div 16777216),
            lowerhex (r div 1048576), lowerhex (r div 65536), lowerhex (r div 4096),
            lowerhex (r div 256), lowerhex (r div 16), lowerhex r])"

text \<open>
  The loop of \<open>appendQuotedWith\<close>: one rune per round; a byte that does not start a
  valid UTF-8 sequence is written as \<open>\xNN\<close>.
\<close>

fun quoteRunes :: "(int \<Rightarrow> bool) \<Rightarrow> string \<Rightarrow> string" where
  "quoteRunes tbl [] = []"
| "quoteRunes tbl (c # cs) =
     (if byte c < 0x80 then appendEscapedRune tbl (byte c) @ quoteRunes tbl cs
      else
        (case DecodeRuneInString (c # cs) of (r, width) \<Rightarrow>
           if width = 1 \<and> r = RuneError
           then [CHR 0x5C, CHR ''x'', lowerhex (byte c div 16), lowerhex (byte c)]
                  @ quoteRunes tbl cs
           else appendEscapedRune tbl r @ quoteRunes tbl (drop (width - 1) cs)))"

definition Quote :: "(int \<Rightarrow> bool) \<Rightarrow> string \<Rightarrow> string" where
  "Quote tbl s = [CHR 0x22] @ quoteRunes tbl s @ [CHR 0x22]"

text \<open>
  The bytes that \<open>Quote\<close> copies unchanged whatever the tables say: printable ASCII
  other than the double quote and the backslash.
\<close>

definition plainByte :: "char \<Rightarrow> bool" where
  "plainByte c = (0x20 \<le> byte c \<and> byte c \<le> 0x7E \<and> c \<noteq> CHR 0x22 \<and> c \<noteq> CHR 0x5C)"

subsection \<open>strconv.ParseBool, FormatBool\<close>

definition ParseBool :: "string \<Rightarrow> bool option" where
  "ParseBool str =
     (if str \<in> set [''1'', ''t'', ''T'', ''true'', ''TRUE'', ''True''] then Some True
      else if str \<in> set [''0'', ''f'', ''F'', ''false'', ''FALSE'', ''False''] then Some False
      else None)"

definition FormatBool :: "bool \<Rightarrow> string" where
  "FormatBool b = (if b then ''true'' else ''false'')"

subsection \<open>strconv.ParseInt(s, 10, 64), FormatInt(i, 10)\<close>

datatype NumError = ErrSyntax | ErrRange

definition isDigit :: "char \<Rightarrow> bool" where
  "isDigit c = (0x30 \<le> byte c \<and> byte c \<le> 0x39)"

definition maxUint64 :: int where
  "maxUint64 = 2 ^ 64 - 1"

text \<open>
  The digit loop of \<open>ParseUint\<close> in base 10 and 64 bits. A letter is a digit of value
  ten or more, hence a syntax error in base 10, and the underscore is only accepted with
  base 0. On overflow the loop stops with the largest value and a range error.
\<close>

fun ParseUint_loop :: "string \<Rightarrow> int \<Rightarrow> int \<times> NumError option" where
  "ParseUint_loop [] n = (n, None)"
| "ParseUint_loop (c # cs) n =
     (if \<not> isDigit c then (0, Some ErrSyntax)
      else if n \<ge> maxUint64 div 10 + 1 then (maxUint64, Some ErrRange)
      else
        let n1 = n * 10 + (byte c - 0x30) in
        if n1 > maxUint64 then (maxUint64, Some ErrRange)
        else ParseUint_loop cs n1)"

definition ParseUint :: "string \<Rightarrow> int \<times> NumError option" where
  "ParseUint s = (if s = [] then (0, Some ErrSyntax) else ParseUint_loop s 0)"

definition ParseInt :: "string \<Rightarrow> NumError + 64 word" where
  "ParseInt s =
     (case s of
        [] \<Rightarrow> Inl ErrSyntax
      | c # cs \<Rightarrow>
          let neg = (c = CHR ''-'');
              s' = (if c = CHR ''+'' \<or> c = CHR ''-'' then cs else s)
          in
            (case ParseUint s' of
               (un, Some ErrSyntax) \<Rightarrow> Inl ErrSyntax
             | (un, _) \<Rightarrow>
                 if \<not> neg \<and> un \<ge> 2 ^ 63 then Inl ErrRange
                 else if neg \<and> un > 2 ^ 63 then Inl ErrRange
                 else Inr (if neg then - word_of_int un else word_of_int un)))"

function formatBits :: "int \<Rightarrow> string" where
  "formatBits n =
     (if n < 10 then [char_of (0x30 + n)]
      else formatBits (n div 10) @ [char_of (0x30 + n mod 10)])"
  by pat_completeness auto
termination
  by (relation "measure nat") auto

declare formatBits.simps [simp del]

definition FormatInt :: "64 word \<Rightarrow> string" where
  "FormatInt i =
     (if sint i < 0 then CHR ''-'' # formatBits (- sint i)
      else formatBits (sint i))"

subsection \<open>encoding/json: the scanner\<close>

text \<open>
  \<open>json.Unmarshal\<close> first checks the whole input against the JSON grammar
  (\<open>checkValid\<close>) and only then decodes. The grammar check is written as a
  recursive-descent parser that returns the syntax tree; string literals keep their raw
  bytes (escapes unprocessed) and numbers their literal text. The parser runs on fuel;
  \<open>OutOfFuel\<close> is kept apart from \<open>Invalid\<close>.
\<close>

datatype json =
    JNull
  | JBool bool
  | JNumber string
  | JString string
  | JArray "json list"
  | JObject "(string \<times> json) list"

datatype 'a scan = OutOfFuel | Invalid | Scanned 'a string

definition isSpace :: "char \<Rightarrow> bool" where
  "isSpace c = (c = CHR '' '' \<or> c = CHR 0x09 \<or> c = CHR 0x0D \<or> c = CHR 0x0A)"

definition skipSpace :: "string \<Rightarrow> string" where
  "skipSpace s = dropWhile isSpace s"

definition isHex :: "char \<Rightarrow> bool" where
  "isHex c = (isDigit c \<or> (0x61 \<le> byte c \<and> byte c \<le> 0x66) \<or> (0x41 \<le> byte c \<and> byte c \<le> 0x46))"

definition maxNestingDepth :: int where
  "maxNestingDepth = 10000"

definition isSimpleEscape :: "char \<Rightarrow> bool" where
  "isSimpleEscape e =
     (e \<in> set [CHR ''b'', CHR ''f'', CHR ''n'', CHR ''r'', CHR ''t'', CHR 0x5C, CHR ''/'', CHR 0x22])"

text \<open>
  The inside of a string literal, after the opening quote: the raw bytes up to the
  closing quote, and what follows it.
\<close>

fun scanString :: "string \<Rightarrow> (string \<times> string) option" where
  "scanString [] = None"
| "scanString (c # cs) =
     (if c = CHR 0x22 then Some ([], cs)
      else if c = CHR 0x5C then
        (case cs of
           [] \<Rightarrow> None
         | e # cs' \<Rightarrow>
             if isSimpleEscape e
             then map_option (\<lambda>(raw, rest). (c # e # raw, rest)) (scanString cs')
             else if e = CHR ''u'' then
               (case cs' of
                  h1 # h2 # h3 # h4 # cs'' \<Rightarrow>
                    if isHex h1 \<and> isHex h2 \<and> isHex h3 \<and> isHex h4
                    then map_option (\<lambda>(raw, rest). (c # e # h1 # h2 # h3 # h4 # raw, rest))
                           (scanString cs'')
                    else None
                | _ \<Rightarrow> None)
             else None)
      else if byte c < 0x20 then None
      else map_option (\<lambda>(raw, rest). (c # raw, rest)) (scanString cs))"

text \<open>
  A number literal: an optional minus, \<open>0\<close> or a digit sequence without leading zero,
  an optional fraction, an optional exponent. The scanner stops at the first byte that
  cannot continue the number and leaves it to the enclosing state.
\<close>

definition scanDigits :: "string \<Rightarrow> (string \<times> string) option" where
  "scanDigits s =
     (if takeWhile isDigit s = [] then None
      else Some (takeWhile isDigit s, dropWhile isDigit s))"

definition scanInt :: "string \<Rightarrow> (string \<times> string) option" where
  "scanInt s =
     (case s of
        [] \<Rightarrow> None
      | d # ds \<Rightarrow> if d = CHR ''0'' then Some ([d], ds) else scanDigits s)"

definition scanFrac :: "string \<Rightarrow> (string \<times> string) option" where
  "scanFrac s =
     (case s of
        [] \<Rightarrow> Some ([], s)
      | c # cs \<Rightarrow>
          if c = CHR ''.''
          then map_option (\<lambda>(ds, rest). (c # ds, rest)) (scanDigits cs)
          else Some ([], s))"

definition scanExp :: "string \<Rightarrow> (string \<times> string) option" where
  "scanExp s =
     (case s of
        [] \<Rightarrow> Some ([], s)
      | c # cs \<Rightarrow>
          if c = CHR ''e'' \<or> c = CHR ''E'' then
            (case cs of
               [] \<Rightarrow> None
             | g # gs \<Rightarrow>
                 if g = CHR ''+'' \<or> g = CHR ''-''
                 then map_option (\<lambda>(ds, rest). (c # g # ds, rest)) (scanDigits gs)
                 else map_option (\<lambda>(ds, rest). (c # ds, rest)) (scanDigits cs))
          else Some ([], s))"

definition scanNumber :: "string \<Rightarrow> (string \<times> string) option" where
  "scanNumber s =
     (let (sign, s1) = (case s of [] \<Rightarrow> ([], s)
                        | c # cs \<Rightarrow> if c = CHR ''-'' then ([c], cs) else ([], s))
      in
        (case scanInt s1 of
           None \<Rightarrow> None
         | Some (ip, s2) \<Rightarrow>
             (case scanFrac s2 of
                None \<Rightarrow> None
              | Some (fp, s3) \<Rightarrow>
                  (case scanExp s3 of
                     None \<Rightarrow> None
                   | Some (ep, s4) \<Rightarrow> Some (sign @ ip @ fp @ ep, s4)))))"

definition scanLiteral :: "string \<Rightarrow> json \<Rightarrow> string \<Rightarrow> json scan" where
  "scanLiteral word v s =
     (if take (length word) s = word then Scanned v (drop (length word) s) else Invalid)"

text \<open>
  \<open>parseValue n d s\<close> reads one value at the head of \<open>s\<close> (leading space already
  skipped) inside \<open>d\<close> open containers; \<open>parseElements\<close> and \<open>parseMembers\<close> read the
  rest of a non-empty array or object up to and including the closing bracket. Opening
  a container beyond \<open>maxNestingDepth\<close> is a syntax error, as in the scanner's
  \<open>pushParseState\<close>.
\<close>

fun parseValue :: "nat \<Rightarrow> int \<Rightarrow> string \<Rightarrow> json scan"
  and parseElements :: "nat \<Rightarrow> int \<Rightarrow> string \<Rightarrow> (json list) scan"
  and parseMembers :: "nat \<Rightarrow> int \<Rightarrow> string \<Rightarrow> ((string \<times> json) list) scan"
where
  "parseValue 0 d s = OutOfFuel"
| "parseValue (Suc n) d [] = Invalid"
| "parseValue (Suc n) d (c # cs) =
     (if c = CHR ''{'' then
        (if d + 1 > maxNestingDepth then Invalid
         else
           (case skipSpace cs of
              [] \<Rightarrow> Invalid
            | c' # rest \<Rightarrow>
                if c' = CHR ''}'' then Scanned (JObject []) rest
                else
                  (case parseMembers n (d + 1) (c' # rest) of
                     OutOfFuel \<Rightarrow> OutOfFuel
                   | Invalid \<Rightarrow> Invalid
                   | Scanned ms rest' \<Rightarrow> Scanned (JObject ms) rest')))
      else if c = CHR ''['' then
        (if d + 1 > maxNestingDepth then Invalid
         else
           (case skipSpace cs of
              [] \<Rightarrow> Invalid
            | c' # rest \<Rightarrow>
                if c' = CHR '']'' then Scanned (JArray []) rest
                else
                  (case parseElements n (d + 1) (c' # rest) of
                     OutOfFuel \<Rightarrow> OutOfFuel
                   | Invalid \<Rightarrow> Invalid
                   | Scanned vs rest' \<Rightarrow> Scanned (JArray vs) rest')))
      else if c = CHR 0x22 then
        (case scanString cs of
           None \<Rightarrow> Invalid
         | Some (raw, rest) \<Rightarrow> Scanned (JString raw) rest)
      else if c = CHR ''-'' \<or> isDigit c then
        (case scanNumber (c # cs) of
           None \<Rightarrow> Invalid
         | Some (lit, rest) \<Rightarrow> Scanned (JNumber lit) rest)
      else if c = CHR ''t'' then scanLiteral ''true'' (JBool True) (c # cs)
      else if c = CHR ''f'' then scanLiteral ''false'' (JBool False) (c # cs)
      else if c = CHR ''n'' then scanLiteral ''null'' JNull (c # cs)
      else Invalid)"
| "parseElements 0 d s = OutOfFuel"
| "parseElements (Suc n) d s =
     (case parseValue n d s of
        OutOfFuel \<Rightarrow> OutOfFuel
      | Invalid \<Rightarrow> Invalid
      | Scanned v rest \<Rightarrow>
          (case skipSpace rest of
             [] \<Rightarrow> Invalid
           | c # rest' \<Rightarrow>
               if c = CHR '','' then
                 (case parseElements n d (skipSpace rest') of
                    OutOfFuel \<Rightarrow> OutOfFuel
                  | Invalid \<Rightarrow> Invalid
                  | Scanned vs rest'' \<Rightarrow> Scanned (v # vs) rest'')
               else if c = CHR '']'' then Scanned [v] rest'
               else Invalid))"
| "parseMembers 0 d s = OutOfFuel"
| "parseMembers (Suc n) d s =
     (case s of
        [] \<Rightarrow> Invalid
      | q # cs \<Rightarrow>
          if q \<noteq> CHR 0x22 then Invalid
          else
            (case scanString cs of
               None \<Rightarrow> Invalid
             | Some (k, rest) \<Rightarrow>
                 (case skipSpace rest of
                    [] \<Rightarrow> Invalid
                  | c # rest' \<Rightarrow>
                      if c \<noteq> CHR '':'' then Invalid
                      else
                        (case parseValue n d (skipSpace rest') of
                           OutOfFuel \<Rightarrow> OutOfFuel
                         | Invalid \<Rightarrow> Invalid
                         | Scanned v rest'' \<Rightarrow>
                             (case skipSpace rest'' of
                                [] \<Rightarrow> Invalid
                              | c' # r \<Rightarrow>
                                  if c' = CHR '','' then
                                    (case parseMembers n d (skipSpace r) of
                                       OutOfFuel \<Rightarrow> OutOfFuel
                                     | Invalid \<Rightarrow> Invalid
                                     | Scanned ms r' \<Rightarrow> Scanned ((k, v) # ms) r')
                                  else if c' = CHR ''}'' then Scanned [(k, v)] r
                                  else Invalid)))))"

text \<open>
  \<open>checkValid\<close>: one value, surrounded by optional white space and nothing else. Two
  units of fuel per input byte are enough (lemma \<open>parseDocument_fuel\<close> below).
\<close>

definition parseDocument :: "string \<Rightarrow> json scan" where
  "parseDocument data =
     (case parseValue (2 * length data + 2) 0 (skipSpace data) of
        OutOfFuel \<Rightarrow> OutOfFuel
      | Invalid \<Rightarrow> Invalid
      | Scanned v rest \<Rightarrow> if skipSpace rest = [] then Scanned v [] else Invalid)"

subsection \<open>encoding/json: decoding into \<open>map[string]interface{}\<close>\<close>

definition hexVal :: "char \<Rightarrow> int" where
  "hexVal c =
     (if isDigit c then byte c - 0x30
      else if 0x61 \<le> byte c \<and> byte c \<le> 0x66 then byte c - 0x61 + 10
      else byte c - 0x41 + 10)"

text \<open>\<open>getu4\<close>: the code unit of a leading \<open>\uXXXX\<close>, or \<open>-1\<close>.\<close>

definition getu4 :: "string \<Rightarrow> int" where
  "getu4 s =
     (case s of
        b # u # h1 # h2 # h3 # h4 # _ \<Rightarrow>
          if b = CHR 0x5C \<and> u = CHR ''u'' \<and> isHex h1 \<and> isHex h2 \<and> isHex h3 \<and> isHex h4
          then ((hexVal h1 * 16 + hexVal h2) * 16 + hexVal h3) * 16 + hexVal h4
          else - 1
      | _ \<Rightarrow> - 1)"

definition IsSurrogate :: "int \<Rightarrow> bool" where
  "IsSurrogate r = (0xD800 \<le> r \<and> r < 0xE000)"

text \<open>\<open>utf16.DecodeRune\<close>: the code point of a surrogate pair, U+FFFD for anything else.\<close>

definition utf16_DecodeRune :: "int \<Rightarrow> int \<Rightarrow> int" where
  "utf16_DecodeRune r1 r2 =
     (if 0xD800 \<le> r1 \<and> r1 < 0xDC00 \<and> 0xDC00 \<le> r2 \<and> r2 < 0xE000
      then (r1 - 0xD800) * 1024 + (r2 - 0xDC00) + 0x10000
      else RuneError)"

definition unescape :: "char \<Rightarrow> char option" where
  "unescape e =
     (if e = CHR 0x22 \<or> e = CHR 0x5C \<or> e = CHR ''/'' \<or> e = CHR 0x27 then Some e
      else if e = CHR ''b'' then Some (CHR 0x08)
      else if e = CHR ''f'' then Some (CHR 0x0C)
      else if e = CHR ''n'' then Some (CHR 0x0A)
      else if e = CHR ''r'' then Some (CHR 0x0D)
      else if e = CHR ''t'' then Some (CHR 0x09)
      else None)"

text \<open>
  \<open>unquoteBytes\<close> on the inside of a string literal: escapes are replaced, a lone
  surrogate escape and every byte that is not valid UTF-8 become U+FFFD. \<open>None\<close> is the
  result \<open>ok = false\<close>, on which the decoder panics (\<open>PhaseError\<close> below); it does not
  arise on input that passed the scanner (lemma \<open>Unmarshal_no_phase_error\<close>).
\<close>

fun unquoteBytes :: "string \<Rightarrow> string option" where
  "unquoteBytes [] = Some []"
| "unquoteBytes (c # cs) =
     (if c = CHR 0x5C then
        (case cs of
           [] \<Rightarrow> None
         | e # cs' \<Rightarrow>
             if e = CHR ''u'' then
               (let rr = getu4 (c # cs); rest = drop 4 cs' in
                if rr < 0 then None
                else if IsSurrogate rr then
                  (let dec = utf16_DecodeRune rr (getu4 rest) in
                   if dec \<noteq> RuneError
                   then map_option ((@) (EncodeRune dec)) (unquoteBytes (drop 6 rest))
                   else map_option ((@) (EncodeRune RuneError)) (unquoteBytes rest))
                else map_option ((@) (EncodeRune rr)) (unquoteBytes rest))
             else
               (case unescape e of
                  None \<Rightarrow> None
                | Some b \<Rightarrow> map_option ((#) b) (unquoteBytes cs')))
      else if c = CHR 0x22 \<or> byte c < 0x20 then None
      else if byte c < 0x80 then map_option ((#) c) (unquoteBytes cs)
      else
        (case DecodeRuneInString (c # cs) of
           (rr, width) \<Rightarrow>
             map_option ((@) (EncodeRune rr)) (unquoteBytes (drop (width - 1) cs))))"

datatype UnmarshalError = SyntaxError | UnmarshalTypeError | PhaseError

text \<open>
  Decoding a value into an empty interface: \<open>null\<close> is nil, a number is the
  \<open>float64\<close> that \<open>ParseFloat\<close> gives for its literal (an error of \<open>ParseFloat\<close>
  is an \<open>UnmarshalTypeError\<close>), an array is a \<open>[]interface{}\<close>, an object a
  \<open>map[string]interface{}\<close> in which a later duplicate key replaces the earlier one.
\<close>

fun valueInterface :: "(string \<Rightarrow> 'f option) \<Rightarrow> json \<Rightarrow> UnmarshalError + 'f any"
  and arrayInterface :: "(string \<Rightarrow> 'f option) \<Rightarrow> json list \<Rightarrow> UnmarshalError + 'f any list"
  and objectInterface ::
    "(string \<Rightarrow> 'f option) \<Rightarrow> (string \<times> json) list \<Rightarrow> (string \<times> 'f any) list
       \<Rightarrow> UnmarshalError + (string \<times> 'f any) list"
where
  "valueInterface pf JNull = Inr VNil"
| "valueInterface pf (JBool b) = Inr (VBool b)"
| "valueInterface pf (JNumber lit) =
     (case pf lit of None \<Rightarrow> Inl UnmarshalTypeError | Some f \<Rightarrow> Inr (VFloat64 f))"
| "valueInterface pf (JString raw) =
     (case unquoteBytes raw of None \<Rightarrow> Inl PhaseError | Some str \<Rightarrow> Inr (VString str))"
| "valueInterface pf (JArray vs) =
     (case arrayInterface pf vs of Inl e \<Rightarrow> Inl e | Inr xs \<Rightarrow> Inr (VSlice xs))"
| "valueInterface pf (JObject ms) =
     (case objectInterface pf ms [] of Inl e \<Rightarrow> Inl e | Inr m \<Rightarrow> Inr (VMap (Some m)))"
| "arrayInterface pf [] = Inr []"
| "arrayInterface pf (v # vs) =
     (case valueInterface pf v of
        Inl e \<Rightarrow> Inl e
      | Inr x \<Rightarrow> (case arrayInterface pf vs of Inl e \<Rightarrow> Inl e | Inr xs \<Rightarrow> Inr (x # xs)))"
| "objectInterface pf [] m = Inr m"
| "objectInterface pf ((k, v) # ms) m =
     (case unquoteBytes k of
        None \<Rightarrow> Inl PhaseError
      | Some key \<Rightarrow>
          (case valueInterface pf v of
             Inl e \<Rightarrow> Inl e
           | Inr x \<Rightarrow> objectInterface pf ms (AList.update key x m)))"

text \<open>
  A syntax tree all of whose string literals and keys \<open>unquoteBytes\<close> accepts; the
  scanner produces no other.
\<close>

fun unquotable :: "json \<Rightarrow> bool" where
  "unquotable (JString raw) = (unquoteBytes raw \<noteq> None)"
| "unquotable (JArray vs) = list_all unquotable vs"
| "unquotable (JObject ms) = list_all (\<lambda>m. unquoteBytes (fst m) \<noteq> None \<and> unquotable (snd m)) ms"
| "unquotable t = True"

text \<open>
  \<open>json.Unmarshal(data, &obj)\<close> for \<open>var obj map[string]interface{}\<close>: the result is
  the error, or the map left in \<open>obj\<close>. At the top level only an object and \<open>null\<close>
  can be stored in a map; \<open>null\<close> leaves the nil map.
\<close>

definition Unmarshal :: "(string \<Rightarrow> 'f option) \<Rightarrow> string \<Rightarrow> UnmarshalError + 'f Properties" where
  "Unmarshal pf data =
     (case parseDocument data of
        OutOfFuel \<Rightarrow> Inl SyntaxError
      | Invalid \<Rightarrow> Inl SyntaxError
      | Scanned t rest \<Rightarrow>
          (case t of
             JObject ms \<Rightarrow>
               (case objectInterface pf ms [] of Inl e \<Rightarrow> Inl e | Inr m \<Rightarrow> Inr (Some m))
           | JNull \<Rightarrow> Inr None
           | _ \<Rightarrow> Inl UnmarshalTypeError))"

section \<open>The OpenFeature SDK types the provider fills in\<close>

text \<open>
  \<open>ErrorCode\<close> and \<open>Reason\<close> are string constants of the SDK; only the ones the
  provider uses are listed. \<open>NoErrorCode\<close> is the empty code of the zero
  \<open>ResolutionError\<close>, which a resolution detail carries when nothing went wrong. The
  fields \<open>Variant\<close> and \<open>FlagMetadata\<close> of the detail are never set by the provider
  and are left out.
\<close>

datatype ErrorCode =
    NoErrorCode
  | FlagNotFoundCode
  | TypeMismatchCode
  | TargetingKeyMissingCode
  | GeneralCode

datatype Reason = DefaultReason | TargetingMatchReason | ErrorReason

record ResolutionError =
  code :: ErrorCode
  message :: string

definition noResolutionError :: ResolutionError where
  "noResolutionError = \<lparr>code = NoErrorCode, message = []\<rparr>"

definition NewFlagNotFoundResolutionError :: "string \<Rightarrow> ResolutionError" where
  "NewFlagNotFoundResolutionError msg = \<lparr>code = FlagNotFoundCode, message = msg\<rparr>"

definition NewTypeMismatchResolutionError :: "string \<Rightarrow> ResolutionError" where
  "NewTypeMismatchResolutionError msg = \<lparr>code = TypeMismatchCode, message = msg\<rparr>"

definition NewTargetingKeyMissingResolutionError :: "string \<Rightarrow> ResolutionError" where
  "NewTargetingKeyMissingResolutionError msg = \<lparr>code = TargetingKeyMissingCode, message = msg\<rparr>"

definition NewGeneralResolutionError :: "string \<Rightarrow> ResolutionError" where
  "NewGeneralResolutionError msg = \<lparr>code = GeneralCode, message = msg\<rparr>"

record 'a ResolutionDetail =
  Value :: 'a
  ResolutionError :: ResolutionError
  Reason :: Reason

type_synonym 'f FlattenedContext = "string \<rightharpoonup> 'f any"

section \<open>The PostHog client\<close>

record 'f FeatureFlagPayload =
  Key :: string
  DistinctId :: string
  Groups :: "'f Properties"
  PersonProperties :: "'f Properties"
  GroupProperties :: "(string \<times> 'f Properties) list option"

text \<open>
  \<open>client.GetFeatureFlag(payload)\<close> returns a value and an error; the error is kept as
  its message, the only thing the provider reads of it. The client is a collaborator
  with a state of its own (type \<open>'c\<close>), so a call is a step on that state. The world
  the provider runs in is the client's state and the log of the payloads the client was
  invoked with.
\<close>

type_synonym ('c, 'f) Client =
  "'f FeatureFlagPayload \<Rightarrow> 'c \<Rightarrow> ('f any \<times> string option) \<times> 'c"

record ('c, 'f) world =
  backend :: 'c
  calls :: "'f FeatureFlagPayload list"

section \<open>provider.go\<close>

definition DistinctIDContextKey :: string where
  "DistinctIDContextKey = ''targetingKey''"

definition GroupsContextKey :: string where
  "GroupsContextKey = ''groups''"

definition PropertiesContextKey :: string where
  "PropertiesContextKey = ''properties''"

datatype ctxError = errMissingTargetKey | errInvalidGroups | errInvalidProperties

fun Error :: "ctxError \<Rightarrow> string" where
  "Error errMissingTargetKey = ''missing target key in evaluation context''"
| "Error errInvalidGroups = ''invalid groups in evaluation context''"
| "Error errInvalidProperties = ''invalid properties in evaluation context''"

record ('c, 'f) Provider =
  client :: "('c, 'f) Client"

text \<open>
  \<open>getFeatureFlag\<close>: one call of the client; a boolean reply means that the flag was
  not found.
\<close>

definition getFeatureFlag ::
  "('c, 'f) Provider \<Rightarrow> 'f FeatureFlagPayload \<Rightarrow> ('c, 'f) world
     \<Rightarrow> ('f any \<times> bool \<times> string option) \<times> ('c, 'f) world" where
  "getFeatureFlag p payload w =
     (case client p payload (backend w) of
        ((res, err), b') \<Rightarrow>
          (let w' = w\<lparr>backend := b', calls := calls w @ [payload]\<rparr> in
           case err of
             Some e \<Rightarrow> ((res, False, Some e), w')
           | None \<Rightarrow>
               (case res of
                  VBool b \<Rightarrow> ((res, False, None), w')
                | _ \<Rightarrow> ((res, True, None), w'))))"

text \<open>
  \<open>translateFeatureFlagPayload\<close>: the result is the payload or one of the three
  context errors; the unchecked assertion \<open>distinctID.(string)\<close> in the payload literal
  panics on a targeting key that is not a string. The two comma-ok assertions are
  \<open>asGroups\<close> and \<open>asPostHogProperties\<close>.
\<close>

definition asGroups :: "'f any \<Rightarrow> 'f Properties option" where
  "asGroups v = (case v of VGroups g \<Rightarrow> Some g | _ \<Rightarrow> None)"

definition asPostHogProperties ::
  "'f any \<Rightarrow> ((string \<times> 'f Properties) list option \<times> 'f Properties) option" where
  "asPostHogProperties v = (case v of VPostHogProperties gp pp \<Rightarrow> Some (gp, pp) | _ \<Rightarrow> None)"

definition translateFeatureFlagPayload ::
  "'f FlattenedContext \<Rightarrow> string \<Rightarrow> panic + (ctxError + 'f FeatureFlagPayload)" where
  "translateFeatureFlagPayload evalCtx key =
     (case evalCtx DistinctIDContextKey of
        None \<Rightarrow> Inr (Inl errMissingTargetKey)
      | Some distinctID \<Rightarrow>
          (case (case evalCtx GroupsContextKey of
                   None \<Rightarrow> Inr None
                 | Some groups \<Rightarrow>
                     (case asGroups groups of
                        None \<Rightarrow> Inl errInvalidGroups
                      | Some g \<Rightarrow> Inr g)) of
             Inl e \<Rightarrow> Inr (Inl e)
           | Inr postHogGroups \<Rightarrow>
               (case (case evalCtx PropertiesContextKey of
                        None \<Rightarrow> Inr (None, None)
                      | Some context \<Rightarrow>
                          (case asPostHogProperties context of
                             None \<Rightarrow> Inl errInvalidProperties
                           | Some c \<Rightarrow> Inr c)) of
                  Inl e \<Rightarrow> Inr (Inl e)
                | Inr (groupProperties, personProperties) \<Rightarrow>
                    (case distinctID of
                       VString str \<Rightarrow>
                         Inr (Inr \<lparr>Key = key,
                                   DistinctId = str,
                                   Groups = postHogGroups,
                                   PersonProperties = personProperties,
                                   GroupProperties = groupProperties\<rparr>)
                     | _ \<Rightarrow> Inl InterfaceConversion))))"

text \<open>
  \<open>parseFlagValue[T]\<close>, one definition per instantiation the provider uses
  (\<open>bool\<close>, \<open>float64\<close>, \<open>int64\<close>, \<open>string\<close>). Each is the string check followed
  by the branch that the type switch selects for \<open>T\<close>; the default branch of the
  switch belongs to no instantiation. The result is the resolution error or the parsed
  value.
\<close>

definition parseFlagValue_bool :: "'f stdlib \<Rightarrow> 'f any \<Rightarrow> ResolutionError + bool" where
  "parseFlagValue_bool lib v =
     (case v of
        VString s \<Rightarrow>
          (case ParseBool s of
             None \<Rightarrow>
               Inl (NewTypeMismatchResolutionError
                      (Quote (IsPrintTable lib) s @ '' is not a boolean''))
           | Some b \<Rightarrow> Inr b)
      | _ \<Rightarrow> Inl (NewTypeMismatchResolutionError (Sprint lib v @ '' is not a string'')))"

definition parseFlagValue_float64 :: "'f stdlib \<Rightarrow> 'f any \<Rightarrow> ResolutionError + 'f" where
  "parseFlagValue_float64 lib v =
     (case v of
        VString s \<Rightarrow>
          (case ParseFloat lib s of
             None \<Rightarrow>
               Inl (NewTypeMismatchResolutionError
                      (Quote (IsPrintTable lib) s @ '' is not a float''))
           | Some f \<Rightarrow> Inr f)
      | _ \<Rightarrow> Inl (NewTypeMismatchResolutionError (Sprint lib v @ '' is not a string'')))"

definition parseFlagValue_int64 :: "'f stdlib \<Rightarrow> 'f any \<Rightarrow> ResolutionError + 64 word" where
  "parseFlagValue_int64 lib v =
     (case v of
        VString s \<Rightarrow>
          (case ParseInt s of
             Inl e \<Rightarrow>
               Inl (NewTypeMismatchResolutionError
                      (Quote (IsPrintTable lib) s @ '' is not a int''))
           | Inr i \<Rightarrow> Inr i)
      | _ \<Rightarrow> Inl (NewTypeMismatchResolutionError (Sprint lib v @ '' is not a string'')))"

definition parseFlagValue_string :: "'f stdlib \<Rightarrow> 'f any \<Rightarrow> ResolutionError + string" where
  "parseFlagValue_string lib v =
     (case v of
        VString s \<Rightarrow> Inr s
      | _ \<Rightarrow> Inl (NewTypeMismatchResolutionError (Sprint lib v @ '' is not a string'')))"

text \<open>
  The five evaluation entry points. Each returns the resolution detail, or panics, and
  the world after the call.
\<close>

definition BooleanEvaluation ::
  "'f stdlib \<Rightarrow> ('c, 'f) Provider \<Rightarrow> string \<Rightarrow> bool \<Rightarrow> 'f FlattenedContext \<Rightarrow> ('c, 'f) world
     \<Rightarrow> (panic + bool ResolutionDetail) \<times> ('c, 'f) world" where
  "BooleanEvaluation lib p flag defaultValue evalCtx w =
     (case translateFeatureFlagPayload evalCtx flag of
        Inl pn \<Rightarrow> (Inl pn, w)
      | Inr (Inl err) \<Rightarrow>
          if err = errMissingTargetKey then
            (Inr \<lparr>Value = defaultValue,
                  ResolutionError = NewTargetingKeyMissingResolutionError (Error err),
                  Reason = ErrorReason\<rparr>, w)
          else
            (Inr \<lparr>Value = defaultValue,
                  ResolutionError = NewGeneralResolutionError (Error err),
                  Reason = ErrorReason\<rparr>, w)
      | Inr (Inr payload) \<Rightarrow>
          (case getFeatureFlag p payload w of
             ((res, found, Some err), w') \<Rightarrow>
               (Inr \<lparr>Value = defaultValue,
                     ResolutionError = NewGeneralResolutionError err,
                     Reason = ErrorReason\<rparr>, w')
           | ((res, found, None), w') \<Rightarrow>
               if \<not> found then
                 (Inr \<lparr>Value = defaultValue,
                       ResolutionError =
                         NewFlagNotFoundResolutionError
                           (Quote (IsPrintTable lib) flag @ '' not found''),
                       Reason = DefaultReason\<rparr>, w')
               else
                 (case parseFlagValue_bool lib res of
                    Inl resolutionErr \<Rightarrow>
                      (Inr \<lparr>Value = defaultValue,
                            ResolutionError = resolutionErr,
                            Reason = ErrorReason\<rparr>, w')
                  | Inr parsedValue \<Rightarrow>
                      (Inr \<lparr>Value = parsedValue,
                            ResolutionError = noResolutionError,
                            Reason = TargetingMatchReason\<rparr>, w'))))"

definition FloatEvaluation ::
  "'f stdlib \<Rightarrow> ('c, 'f) Provider \<Rightarrow> string \<Rightarrow> 'f \<Rightarrow> 'f FlattenedContext \<Rightarrow> ('c, 'f) world
     \<Rightarrow> (panic + 'f ResolutionDetail) \<times> ('c, 'f) world" where
  "FloatEvaluation lib p flag defaultValue evalCtx w =
     (case translateFeatureFlagPayload evalCtx flag of
        Inl pn \<Rightarrow> (Inl pn, w)
      | Inr (Inl err) \<Rightarrow>
          (Inr \<lparr>Value = defaultValue,
                ResolutionError = NewGeneralResolutionError (Error err),
                Reason = ErrorReason\<rparr>, w)
      | Inr (Inr payload) \<Rightarrow>
          (case getFeatureFlag p payload w of
             ((res, found, Some err), w') \<Rightarrow>
               (Inr \<lparr>Value = defaultValue,
                     ResolutionError = NewGeneralResolutionError err,
                     Reason = ErrorReason\<rparr>, w')
           | ((res, found, None), w') \<Rightarrow>
               if \<not> found then
                 (Inr \<lparr>Value = defaultValue,
                       ResolutionError =
                         NewFlagNotFoundResolutionError
                           (Quote (IsPrintTable lib) flag @ '' not found''),
                       Reason = DefaultReason\<rparr>, w')
               else
                 (case parseFlagValue_float64 lib res of
                    Inl resolutionErr \<Rightarrow>
                      (Inr \<lparr>Value = defaultValue,
                            ResolutionError = resolutionErr,
                            Reason = ErrorReason\<rparr>, w')
                  | Inr parsedValue \<Rightarrow>
                      (Inr \<lparr>Value = parsedValue,
                            ResolutionError = noResolutionError,
                            Reason = TargetingMatchReason\<rparr>, w'))))"

definition IntEvaluation ::
  "'f stdlib \<Rightarrow> ('c, 'f) Provider \<Rightarrow> string \<Rightarrow> 64 word \<Rightarrow> 'f FlattenedContext \<Rightarrow> ('c, 'f) world
     \<Rightarrow> (panic + 64 word ResolutionDetail) \<times> ('c, 'f) world" where
  "IntEvaluation lib p flag defaultValue evalCtx w =
     (case translateFeatureFlagPayload evalCtx flag of
        Inl pn \<Rightarrow> (Inl pn, w)
      | Inr (Inl err) \<Rightarrow>
          (Inr \<lparr>Value = defaultValue,
                ResolutionError = NewGeneralResolutionError (Error err),
                Reason = ErrorReason\<rparr>, w)
      | Inr (Inr payload) \<Rightarrow>
          (case getFeatureFlag p payload w of
             ((res, found, Some err), w') \<Rightarrow>
               (Inr \<lparr>Value = defaultValue,
                     ResolutionError = NewGeneralResolutionError err,
                     Reason = ErrorReason\<rparr>, w')
           | ((res, found, None), w') \<Rightarrow>
               if \<not> found then
                 (Inr \<lparr>Value = defaultValue,
                       ResolutionError =
                         NewFlagNotFoundResolutionError
                           (Quote (IsPrintTable lib) flag @ '' not found''),
                       Reason = DefaultReason\<rparr>, w')
               else
                 (case parseFlagValue_int64 lib res of
                    Inl resolutionErr \<Rightarrow>
                      (Inr \<lparr>Value = defaultValue,
                            ResolutionError = resolutionErr,
                            Reason = ErrorReason\<rparr>, w')
                  | Inr parsedValue \<Rightarrow>
                      (Inr \<lparr>Value = parsedValue,
                            ResolutionError = noResolutionError,
                            Reason = TargetingMatchReason\<rparr>, w'))))"

definition ObjectEvaluation ::
  "'f stdlib \<Rightarrow> ('c, 'f) Provider \<Rightarrow> string \<Rightarrow> 'f any \<Rightarrow> 'f FlattenedContext \<Rightarrow> ('c, 'f) world
     \<Rightarrow> (panic + 'f any ResolutionDetail) \<times> ('c, 'f) world" where
  "ObjectEvaluation lib p flag defaultValue evalCtx w =
     (case translateFeatureFlagPayload evalCtx flag of
        Inl pn \<Rightarrow> (Inl pn, w)
      | Inr (Inl err) \<Rightarrow>
          (Inr \<lparr>Value = defaultValue,
                ResolutionError = NewGeneralResolutionError (Error err),
                Reason = ErrorReason\<rparr>, w)
      | Inr (Inr payload) \<Rightarrow>
          (case getFeatureFlag p payload w of
             ((res, found, Some err), w') \<Rightarrow>
               (Inr \<lparr>Value = defaultValue,
                     ResolutionError = NewGeneralResolutionError err,
                     Reason = ErrorReason\<rparr>, w')
           | ((res, found, None), w') \<Rightarrow>
               if \<not> found then
                 (Inr \<lparr>Value = defaultValue,
                       ResolutionError =
                         NewFlagNotFoundResolutionError
                           (Quote (IsPrintTable lib) flag @ '' not found''),
                       Reason = DefaultReason\<rparr>, w')
               else
                 (case res of
                    VString str \<Rightarrow>
                      (case Unmarshal (ParseFloat lib) str of
                         Inl e \<Rightarrow>
                           (Inr \<lparr>Value = defaultValue,
                                 ResolutionError =
                                   NewTypeMismatchResolutionError ''invalid JSON as flag value'',
                                 Reason = ErrorReason\<rparr>, w')
                       | Inr obj \<Rightarrow>
                           (Inr \<lparr>Value = VMap obj,
                                 ResolutionError = noResolutionError,
                                 Reason = TargetingMatchReason\<rparr>, w'))
                  | _ \<Rightarrow> (Inl InterfaceConversion, w'))))"

definition StringEvaluation ::
  "'f stdlib \<Rightarrow> ('c, 'f) Provider \<Rightarrow> string \<Rightarrow> string \<Rightarrow> 'f FlattenedContext \<Rightarrow> ('c, 'f) world
     \<Rightarrow> (panic + string ResolutionDetail) \<times> ('c, 'f) world" where
  "StringEvaluation lib p flag defaultValue evalCtx w =
     (case translateFeatureFlagPayload evalCtx flag of
        Inl pn \<Rightarrow> (Inl pn, w)
      | Inr (Inl err) \<Rightarrow>
          (Inr \<lparr>Value = defaultValue,
                ResolutionError = NewGeneralResolutionError (Error err),
                Reason = ErrorReason\<rparr>, w)
      | Inr (Inr payload) \<Rightarrow>
          (case getFeatureFlag p payload w of
             ((res, found, Some err), w') \<Rightarrow>
               (Inr \<lparr>Value = defaultValue,
                     ResolutionError = NewGeneralResolutionError err,
                     Reason = ErrorReason\<rparr>, w')
           | ((res, found, None), w') \<Rightarrow>
               if \<not> found then
                 (Inr \<lparr>Value = defaultValue,
                       ResolutionError =
                         NewFlagNotFoundResolutionError
                           (Quote (IsPrintTable lib) flag @ '' not found''),
                       Reason = DefaultReason\<rparr>, w')
               else
                 (case parseFlagValue_string lib res of
                    Inl resolutionErr \<Rightarrow>
                      (Inr \<lparr>Value = defaultValue,
                            ResolutionError = resolutionErr,
                            Reason = ErrorReason\<rparr>, w')
                  | Inr parsedValue \<Rightarrow>
                      (Inr \<lparr>Value = parsedValue,
                            ResolutionError = noResolutionError,
                            Reason = TargetingMatchReason\<rparr>, w'))))"

section \<open>Test fixtures\<close>

text \<open>
  A stand-in for the parameters of the standard library, with \<open>float64\<close> values written
  as a significand and a binary exponent (\<open>(105, -1)\<close> is 52.5) and \<open>%v\<close> written
  out for nil and \<open>int64\<close> only; a client that answers every call with the same reply
  and counts its calls; the evaluation context of the repository's tests, one whose
  targeting key is a number, one whose groups are a plain \<open>map[string]interface{}\<close>,
  one whose properties are a string, and one with groups and properties of the right
  types.
\<close>

type_synonym float64' = "int \<times> int"

definition testLib :: "float64' stdlib" where
  "testLib =
     \<lparr>IsPrintTable = (\<lambda>r. False),
      ParseFloat = map_of [(''52.5'', (105, - 1)), (''0.5'', (1, - 1))],
      Sprint = (\<lambda>v. case v of VNil \<Rightarrow> ''<nil>'' | VInt64 i \<Rightarrow> FormatInt i | _ \<Rightarrow> ''?'')\<rparr>"

definition replyingClient :: "float64' any \<times> string option \<Rightarrow> (nat, float64') Client" where
  "replyingClient reply = (\<lambda>payload n. (reply, Suc n))"

definition testProvider :: "float64' any \<times> string option \<Rightarrow> (nat, float64') Provider" where
  "testProvider reply = \<lparr>client = replyingClient reply\<rparr>"

definition world0 :: "(nat, float64') world" where
  "world0 = \<lparr>backend = 0, calls = []\<rparr>"

definition userCtx :: "float64' FlattenedContext" where
  "userCtx = [DistinctIDContextKey \<mapsto> VString ''12345'']"

definition userPayload :: "string \<Rightarrow> float64' FeatureFlagPayload" where
  "userPayload flag =
     \<lparr>Key = flag, DistinctId = ''12345'', Groups = None, PersonProperties = None,
      GroupProperties = None\<rparr>"

definition world1 :: "string \<Rightarrow> (nat, float64') world" where
  "world1 flag = \<lparr>backend = 1, calls = [userPayload flag]\<rparr>"

definition emptyCtx :: "float64' FlattenedContext" where
  "emptyCtx = Map.empty"

definition numericKeyCtx :: "float64' FlattenedContext" where
  "numericKeyCtx = [DistinctIDContextKey \<mapsto> VInt64 42]"

definition plainGroupsCtx :: "float64' FlattenedContext" where
  "plainGroupsCtx =
     [DistinctIDContextKey \<mapsto> VString ''12345'',
      GroupsContextKey \<mapsto> VMap (Some [(''company'', VString ''acme'')])]"

definition stringPropertiesCtx :: "float64' FlattenedContext" where
  "stringPropertiesCtx =
     [DistinctIDContextKey \<mapsto> VString ''12345'',
      PropertiesContextKey \<mapsto> VString ''plan=pro'']"

definition fullCtx :: "float64' FlattenedContext" where
  "fullCtx =
     [DistinctIDContextKey \<mapsto> VString ''12345'',
      GroupsContextKey \<mapsto> VGroups (Some [(''company'', VString ''acme'')]),
      PropertiesContextKey \<mapsto>
        VPostHogProperties (Some [(''company'', Some [(''plan'', VString ''pro'')])])
          (Some [(''beta'', VBool True)])]"

definition fullPayload :: "string \<Rightarrow> float64' FeatureFlagPayload" where
  "fullPayload flag =
     \<lparr>Key = flag, DistinctId = ''12345'',
      Groups = Some [(''company'', VString ''acme'')],
      PersonProperties = Some [(''beta'', VBool True)],
      GroupProperties = Some [(''company'', Some [(''plan'', VString ''pro'')])]\<rparr>"

section \<open>Facts about the standard library model\<close>

subsection \<open>Quoting plain bytes\<close>

lemma byte_eq_iff: "byte c = byte c' \<longleftrightarrow> c = c'"
  by (simp add: byte_def)

lemma byte_quote: "byte (CHR 0x22) = 0x22" and byte_backslash: "byte (CHR 0x5C) = 0x5C"
  by (simp_all add: byte_def)

lemma char_of_byte: "char_of (byte c) = c"
  by (simp add: byte_def)

lemma appendEscapedRune_plain:
  assumes "plainByte c"
  shows "appendEscapedRune tbl (byte c) = [c]"
proof -
  from assms have r: "0x20 \<le> byte c" "byte c \<le> 0x7E" "c \<noteq> CHR 0x22" "c \<noteq> CHR 0x5C"
    by (simp_all add: plainByte_def)
  have "byte c \<noteq> 0x22" using r(3) byte_eq_iff [of c "CHR 0x22"] by (simp add: byte_quote)
  moreover have "byte c \<noteq> 0x5C" using r(4) byte_eq_iff [of c "CHR 0x5C"] by (simp add: byte_backslash)
  moreover have "IsPrint tbl (byte c)" using r by (simp add: IsPrint_def)
  moreover have "EncodeRune (byte c) = [c]" using r by (simp add: EncodeRune_def char_of_byte)
  ultimately show ?thesis by (simp add: appendEscapedRune_def)
qed

lemma quoteRunes_plain: "list_all plainByte s \<Longrightarrow> quoteRunes tbl s = s"
proof (induction s)
  case Nil
  then show ?case by simp
next
  case (Cons c s)
  then have "plainByte c" and "list_all plainByte s" by simp_all
  moreover from \<open>plainByte c\<close> have "byte c < 0x80" by (simp add: plainByte_def)
  ultimately show ?case using Cons.IH by (simp add: appendEscapedRune_plain)
qed

lemma Quote_plain: "list_all plainByte s \<Longrightarrow> Quote tbl s = CHR 0x22 # s @ [CHR 0x22]"
  by (simp add: Quote_def quoteRunes_plain)


subsection \<open>Formatting and parsing booleans and integers\<close>

lemma ParseBool_FormatBool: "ParseBool (FormatBool b) = Some b"
  by (cases b) (simp_all add: ParseBool_def FormatBool_def)

lemma byte_digit:
  assumes "0 \<le> d" "d < 10"
  shows "byte (char_of (0x30 + d)) = 0x30 + d"
proof -
  have "byte (char_of (0x30 + d)) = (0x30 + d) mod 256"
    by (simp add: byte_def of_char_of)
  also have "\<dots> = 0x30 + d" using assms by simp
  finally show ?thesis .
qed

lemma isDigit_digit:
  assumes "0 \<le> (d::int)" "d < 10"
  shows "isDigit (char_of (0x30 + d))"
  using assms by (simp add: isDigit_def byte_digit)

lemma formatBits_head:
  "0 \<le> n \<Longrightarrow> \<exists>c cs. formatBits n = c # cs \<and> isDigit c"
proof (induction n rule: formatBits.induct)
  case (1 n)
  show ?case
  proof (cases "n < 10")
    case True
    with 1(2) show ?thesis
      by (subst formatBits.simps) (simp add: isDigit_digit)
  next
    case False
    then have "0 \<le> n div 10" by simp
    with 1(1) False obtain c cs where "formatBits (n div 10) = c # cs" "isDigit c"
      by blast
    with False show ?thesis
      by (subst formatBits.simps) simp
  qed
qed

lemma ParseUint_loop_formatBits:
  "0 \<le> n \<Longrightarrow> n \<le> maxUint64 \<Longrightarrow>
   ParseUint_loop (formatBits n @ cs) 0 = ParseUint_loop cs n"
proof (induction n arbitrary: cs rule: formatBits.induct)
  case (1 n)
  show ?case
  proof (cases "n < 10")
    case True
    with 1(2,3) show ?thesis
      by (subst formatBits.simps) (simp add: isDigit_digit byte_digit maxUint64_def)
  next
    case False
    let ?q = "n div 10" and ?d = "n mod 10"
    have q: "0 \<le> ?q" "?q \<le> maxUint64" using 1(2,3) False by simp_all
    have d: "0 \<le> ?d" "?d < 10" by simp_all
    have cut: "\<not> ?q \<ge> maxUint64 div 10 + 1"
      using 1(3) by (simp add: zdiv_mono1)
    have "ParseUint_loop (formatBits n @ cs) 0
            = ParseUint_loop (formatBits ?q @ (char_of (0x30 + ?d) # cs)) 0"
      using False by (subst formatBits.simps) simp
    also have "\<dots> = ParseUint_loop (char_of (0x30 + ?d) # cs) ?q"
      using 1(1) [OF False q] .
    also have "\<dots> = ParseUint_loop cs (?q * 10 + ?d)"
      using cut 1(3) d by (simp add: isDigit_digit byte_digit Let_def)
    finally show ?thesis by simp
  qed
qed

lemma ParseUint_formatBits:
  assumes "0 \<le> n" "n \<le> maxUint64"
  shows "ParseUint (formatBits n) = (n, None)"
proof -
  from formatBits_head [OF assms(1)] have "formatBits n \<noteq> []" by auto
  moreover have "ParseUint_loop (formatBits n) 0 = (n, None)"
    using ParseUint_loop_formatBits [OF assms, of "[]"] by simp
  ultimately show ?thesis by (simp add: ParseUint_def)
qed

lemma isDigit_not_sign: "isDigit c \<Longrightarrow> c \<noteq> CHR ''+'' \<and> c \<noteq> CHR ''-''"
  by (auto simp add: isDigit_def byte_def)

lemma ParseInt_FormatInt: "ParseInt (FormatInt i) = Inr i"
proof -
  have lo: "- (2 ^ 63) \<le> sint i" and hi: "sint i < 2 ^ 63"
    using sint_ge [of i] sint_lt [of i] by simp_all
  have w: "word_of_int (sint i) = i"
    by (metis scast_eq scast_id)
  have nw: "- word_of_int (- sint i) = i"
    by (simp only: of_int_minus minus_minus w)
  show ?thesis
  proof (cases "sint i < 0")
    case True
    have n: "0 \<le> - sint i" "- sint i \<le> maxUint64"
      using True lo by (simp_all add: maxUint64_def)
    have pu: "ParseUint (formatBits (- sint i)) = (- sint i, None)"
      by (rule ParseUint_formatBits [OF n])
    have r: "\<not> 2 ^ 63 < - sint i"
      using lo by linarith
    have "ParseInt (CHR ''-'' # formatBits (- sint i)) = Inr (- word_of_int (- sint i))"
      using r by (simp add: ParseInt_def pu)
    with True show ?thesis
      by (simp only: FormatInt_def if_True nw)
  next
    case False
    then have n: "0 \<le> sint i" "sint i \<le> maxUint64"
      using hi by (simp_all add: maxUint64_def)
    from formatBits_head [OF n(1)] obtain c cs where
      f: "formatBits (sint i) = c # cs" and c: "isDigit c"
      by blast
    from isDigit_not_sign [OF c] have s: "c \<noteq> CHR ''+''" "c \<noteq> CHR ''-''" by simp_all
    have pu: "ParseUint (c # cs) = (sint i, None)"
      using ParseUint_formatBits [OF n] f by simp
    have r: "\<not> 2 ^ 63 \<le> sint i"
      using hi by linarith
    have "ParseInt (c # cs) = Inr (word_of_int (sint i))"
      using r s by (simp add: ParseInt_def pu)
    with False f show ?thesis
      by (simp only: FormatInt_def if_False w)
  qed
qed

subsection \<open>The JSON scanner consumes its input and never runs out of fuel\<close>

lemma skipSpace_length: "length (skipSpace s) \<le> length s"
  by (simp add: skipSpace_def length_dropWhile_le)

lemma scanString_shorter:
  "scanString cs = Some (raw, rest) \<Longrightarrow> length rest < length cs"
proof (induction "length cs" arbitrary: cs raw rule: less_induct)
  case less
  show ?case
  proof (cases cs)
    case Nil
    with less.prems show ?thesis by simp
  next
    case (Cons c cs')
    have ih: "length rest < length y" if "scanString y = Some (r, rest)" "length y < length cs"
      for y r
      using less.hyps [OF that(2) that(1)] .
    from less.prems Cons show ?thesis
      by (auto split: if_splits list.splits dest!: ih)
  qed
qed

lemma scanDigits_shorter:
  "scanDigits s = Some (ds, rest) \<Longrightarrow> length rest < length s"
proof -
  assume a: "scanDigits s = Some (ds, rest)"
  then have "takeWhile isDigit s \<noteq> []" and r: "rest = dropWhile isDigit s"
    by (auto simp add: scanDigits_def split: if_splits)
  moreover have "length (takeWhile isDigit s) + length (dropWhile isDigit s) = length s"
    by (metis length_append takeWhile_dropWhile_id)
  ultimately show ?thesis by (cases "takeWhile isDigit s") auto
qed

lemma scanInt_shorter: "scanInt s = Some (ip, rest) \<Longrightarrow> length rest < length s"
  by (auto simp add: scanInt_def split: list.splits if_splits dest: scanDigits_shorter)

lemma scanFrac_shorter: "scanFrac s = Some (fp, rest) \<Longrightarrow> length rest \<le> length s"
  by (auto simp add: scanFrac_def split: list.splits if_splits dest!: scanDigits_shorter)

lemma scanExp_shorter: "scanExp s = Some (ep, rest) \<Longrightarrow> length rest \<le> length s"
  by (auto simp add: scanExp_def split: list.splits if_splits dest!: scanDigits_shorter)

lemma scanNumber_shorter:
  assumes "scanNumber s = Some (lit, rest)"
  shows "length rest < length s"
  using assms
  by (auto simp add: scanNumber_def
      split: list.splits if_splits option.splits prod.splits
      dest!: scanInt_shorter scanFrac_shorter scanExp_shorter)

lemma scanLiteral_shorter:
  "scanLiteral word v s = Scanned x rest \<Longrightarrow> word \<noteq> [] \<Longrightarrow> length rest < length s"
  by (cases word; cases s) (auto simp add: scanLiteral_def split: if_splits)

lemma skipSpace_ConsD: "skipSpace s = c # r \<Longrightarrow> length r < length s"
  using skipSpace_length [of s] by simp

lemma skipSpace_lessD: "length r < length (skipSpace s) \<Longrightarrow> length r < length s"
  using skipSpace_length [of s] by simp

lemma parse_shorter_aux:
  "(\<forall>d s v r. parseValue n d s = Scanned v r \<longrightarrow> length r < length s)
   \<and> (\<forall>d s vs r. parseElements n d s = Scanned vs r \<longrightarrow> length r < length s)
   \<and> (\<forall>d s ms r. parseMembers n d s = Scanned ms r \<longrightarrow> length r < length s)"
proof (induction n)
  case 0
  show ?case by simp
next
  case (Suc n)
  then have V: "\<And>d s v r. parseValue n d s = Scanned v r \<Longrightarrow> length r < length s"
    and E: "\<And>d s vs r. parseElements n d s = Scanned vs r \<Longrightarrow> length r < length s"
    and M: "\<And>d s ms r. parseMembers n d s = Scanned ms r \<Longrightarrow> length r < length s"
    by blast+
  have v: "length r < length s" if "parseValue (Suc n) d s = Scanned v r" for d s v r
  proof (cases s)
    case Nil
    with that show ?thesis by simp
  next
    case (Cons c cs)
    with that show ?thesis
      by (auto split: if_splits list.splits scan.splits option.splits
          dest!: E M scanString_shorter scanNumber_shorter scanLiteral_shorter skipSpace_ConsD)
  qed
  have e: "length r < length s" if "parseElements (Suc n) d s = Scanned vs r" for d s vs r
    using that
    by (auto split: if_splits list.splits scan.splits
        dest!: V E skipSpace_ConsD skipSpace_lessD)
  have m: "length r < length s" if "parseMembers (Suc n) d s = Scanned ms r" for d s ms r
    using that
    by (auto split: if_splits list.splits scan.splits option.splits
        dest!: V M scanString_shorter skipSpace_ConsD skipSpace_lessD)
  from v e m show ?case by blast
qed

lemma parseValue_shorter:
  "parseValue n d s = Scanned v r \<Longrightarrow> length r < length s"
  using parse_shorter_aux [of n] by blast

lemma parseElements_shorter:
  "parseElements n d s = Scanned vs r \<Longrightarrow> length r < length s"
  using parse_shorter_aux [of n] by blast

lemma scanLiteral_fuel: "scanLiteral word x t \<noteq> OutOfFuel"
  by (simp add: scanLiteral_def)

lemma fuel_step_value:
  assumes E: "\<And>d s. 2 * length s + 2 \<le> n \<Longrightarrow> parseElements n d s \<noteq> OutOfFuel"
    and M: "\<And>d s. 2 * length s + 2 \<le> n \<Longrightarrow> parseMembers n d s \<noteq> OutOfFuel"
    and n: "2 * length s + 1 \<le> Suc n"
  shows "parseValue (Suc n) d s \<noteq> OutOfFuel"
proof (cases s)
  case Nil
  then show ?thesis by simp
next
  case s: (Cons c cs)
  have sub: "2 * length (c' # rest) + 2 \<le> n" if "skipSpace cs = c' # rest" for c' rest
    using skipSpace_ConsD [OF that] n s by simp
  consider (obj) "c = CHR ''{''" | (arr) "c \<noteq> CHR ''{''" "c = CHR ''[''"
    | (other) "c \<noteq> CHR ''{''" "c \<noteq> CHR ''[''"
    by blast
  then show ?thesis
  proof cases
    case obj
    show ?thesis
    proof (cases "skipSpace cs")
      case Nil
      with obj s show ?thesis by simp
    next
      case (Cons c' rest)
      from M [OF sub [OF Cons]] have "parseMembers n (d + 1) (c' # rest) \<noteq> OutOfFuel" .
      with obj s Cons show ?thesis
        by (simp split: scan.split)
    qed
  next
    case arr
    show ?thesis
    proof (cases "skipSpace cs")
      case Nil
      with arr s show ?thesis by simp
    next
      case (Cons c' rest)
      from E [OF sub [OF Cons]] have "parseElements n (d + 1) (c' # rest) \<noteq> OutOfFuel" .
      with arr s Cons show ?thesis
        by (simp split: scan.split)
    qed
  next
    case other
    with s show ?thesis
      by (simp add: scanLiteral_fuel split: option.split prod.split)
  qed
qed

lemma fuel_step_elements:
  assumes V: "\<And>d s. 2 * length s + 1 \<le> n \<Longrightarrow> parseValue n d s \<noteq> OutOfFuel"
    and E: "\<And>d s. 2 * length s + 2 \<le> n \<Longrightarrow> parseElements n d s \<noteq> OutOfFuel"
    and n: "2 * length s + 2 \<le> Suc n"
  shows "parseElements (Suc n) d s \<noteq> OutOfFuel"
proof (cases "parseValue n d s")
  case OutOfFuel
  moreover from n have "parseValue n d s \<noteq> OutOfFuel"
    by (intro V) simp
  ultimately show ?thesis by simp
next
  case Invalid
  then show ?thesis by simp
next
  case (Scanned x rest)
  show ?thesis
  proof (cases "skipSpace rest")
    case Nil
    with Scanned show ?thesis by simp
  next
    case (Cons c rest')
    from parseValue_shorter [OF Scanned] skipSpace_ConsD [OF Cons] skipSpace_length [of rest']
    have "length (skipSpace rest') + 2 \<le> length s" by simp
    with n have "parseElements n d (skipSpace rest') \<noteq> OutOfFuel"
      by (intro E) simp
    with Scanned Cons show ?thesis
      by (simp split: scan.split)
  qed
qed

lemma fuel_step_members:
  assumes V: "\<And>d s. 2 * length s + 1 \<le> n \<Longrightarrow> parseValue n d s \<noteq> OutOfFuel"
    and M: "\<And>d s. 2 * length s + 2 \<le> n \<Longrightarrow> parseMembers n d s \<noteq> OutOfFuel"
    and n: "2 * length s + 2 \<le> Suc n"
  shows "parseMembers (Suc n) d s \<noteq> OutOfFuel"
proof (cases s)
  case Nil
  then show ?thesis by simp
next
  case s: (Cons q cs)
  show ?thesis
  proof (cases "scanString cs")
    case None
    with s show ?thesis by simp
  next
    case (Some kr)
    obtain k rest where kr: "kr = (k, rest)" by (cases kr)
    show ?thesis
    proof (cases "skipSpace rest")
      case Nil
      with s Some kr show ?thesis by simp
    next
      case c: (Cons c rest')
      from scanString_shorter [of cs k rest] Some kr skipSpace_ConsD [OF c]
        skipSpace_length [of rest'] s
      have l1: "length (skipSpace rest') + 3 \<le> length s" by simp
      show ?thesis
      proof (cases "parseValue n d (skipSpace rest')")
        case OutOfFuel
        moreover from l1 n have "parseValue n d (skipSpace rest') \<noteq> OutOfFuel"
          by (intro V) simp
        ultimately show ?thesis by simp
      next
        case Invalid
        with s Some kr c show ?thesis by simp
      next
        case (Scanned x rest'')
        show ?thesis
        proof (cases "skipSpace rest''")
          case Nil
          with s Some kr c Scanned show ?thesis by simp
        next
          case c': (Cons c' r)
          from parseValue_shorter [OF Scanned] skipSpace_ConsD [OF c'] skipSpace_length [of r] l1
          have "length (skipSpace r) + 5 \<le> length s" by simp
          with n have "parseMembers n d (skipSpace r) \<noteq> OutOfFuel"
            by (intro M) simp
          with s Some kr c Scanned c' show ?thesis
            by (simp split: scan.split)
        qed
      qed
    qed
  qed
qed

lemma parse_fuel_aux:
  "(\<forall>d s. 2 * length s + 1 \<le> n \<longrightarrow> parseValue n d s \<noteq> OutOfFuel)
   \<and> (\<forall>d s. 2 * length s + 2 \<le> n \<longrightarrow> parseElements n d s \<noteq> OutOfFuel)
   \<and> (\<forall>d s. 2 * length s + 2 \<le> n \<longrightarrow> parseMembers n d s \<noteq> OutOfFuel)"
proof (induction n)
  case 0
  show ?case by simp
next
  case (Suc n)
  then have V: "\<And>d s. 2 * length s + 1 \<le> n \<Longrightarrow> parseValue n d s \<noteq> OutOfFuel"
    and E: "\<And>d s. 2 * length s + 2 \<le> n \<Longrightarrow> parseElements n d s \<noteq> OutOfFuel"
    and M: "\<And>d s. 2 * length s + 2 \<le> n \<Longrightarrow> parseMembers n d s \<noteq> OutOfFuel"
    by blast+
  show ?case
    using fuel_step_value [OF E M] fuel_step_elements [OF V E] fuel_step_members [OF V M]
    by blast
qed

lemma parseDocument_fuel: "parseDocument data \<noteq> OutOfFuel"
proof -
  have "2 * length (skipSpace data) + 1 \<le> 2 * length data + 2"
    using skipSpace_length [of data] by simp
  with parse_fuel_aux [of "2 * length data + 2"]
  have "parseValue (2 * length data + 2) 0 (skipSpace data) \<noteq> OutOfFuel"
    by blast
  then show ?thesis
    by (auto simp add: parseDocument_def split: scan.splits)
qed

subsection \<open>The decoder accepts every string literal that the scanner accepts\<close>

declare unquoteBytes.simps [simp del] scanString.simps [simp del]

lemma hexVal_nonneg: "isHex h \<Longrightarrow> 0 \<le> hexVal h"
  by (auto simp add: isHex_def hexVal_def isDigit_def)

lemma getu4_nonneg:
  assumes "isHex h1" "isHex h2" "isHex h3" "isHex h4"
  shows "0 \<le> getu4 (CHR 0x5C # CHR ''u'' # h1 # h2 # h3 # h4 # xs)"
  using assms hexVal_nonneg [of h1] hexVal_nonneg [of h2] hexVal_nonneg [of h3]
    hexVal_nonneg [of h4]
  by (simp add: getu4_def)

lemma getu4_shape:
  assumes "0 \<le> getu4 s"
  shows "\<exists>g1 g2 g3 g4 xs. s = CHR 0x5C # CHR ''u'' # g1 # g2 # g3 # g4 # xs"
  using assms
  by (auto simp add: getu4_def split: list.splits if_splits)

lemma utf16_DecodeRune_pair: "utf16_DecodeRune r1 r2 \<noteq> RuneError \<Longrightarrow> 0 \<le> r2"
  by (auto simp add: utf16_DecodeRune_def split: if_splits)

lemma byte_backslash_lt: "byte (CHR 0x5C) < 0x80"
  by (simp add: byte_def)

lemma scanString_quote: "scanString (CHR 0x22 # cs) = Some ([], cs)"
  by (simp add: scanString.simps)

lemma scanString_escape:
  "scanString (CHR 0x5C # cs) =
     (case cs of
        [] \<Rightarrow> None
      | e # cs' \<Rightarrow>
          if isSimpleEscape e
          then map_option (\<lambda>(raw, rest). (CHR 0x5C # e # raw, rest)) (scanString cs')
          else if e = CHR ''u'' then
            (case cs' of
               h1 # h2 # h3 # h4 # cs'' \<Rightarrow>
                 if isHex h1 \<and> isHex h2 \<and> isHex h3 \<and> isHex h4
                 then map_option (\<lambda>(raw, rest). (CHR 0x5C # e # h1 # h2 # h3 # h4 # raw, rest))
                        (scanString cs'')
                 else None
             | _ \<Rightarrow> None)
          else None)"
  by (subst scanString.simps) simp

lemma scanString_plain:
  "c \<noteq> CHR 0x22 \<Longrightarrow> c \<noteq> CHR 0x5C \<Longrightarrow>
   scanString (c # cs) =
     (if byte c < 0x20 then None
      else map_option (\<lambda>(raw, rest). (c # raw, rest)) (scanString cs))"
  by (subst scanString.simps) simp

lemma scanString_Nil: "scanString [] = None"
  by (simp add: scanString.simps)

lemma scanString_cases [consumes 1, case_names quote escape unicode plain]:
  assumes "scanString cs = Some (raw, rest)"
  obtains
    (quote) "cs = CHR 0x22 # rest" "raw = []"
  | (escape) e cs' raw' where
      "cs = CHR 0x5C # e # cs'" "isSimpleEscape e"
      "scanString cs' = Some (raw', rest)" "raw = CHR 0x5C # e # raw'"
  | (unicode) h1 h2 h3 h4 cs' raw' where
      "cs = CHR 0x5C # CHR ''u'' # h1 # h2 # h3 # h4 # cs'"
      "isHex h1" "isHex h2" "isHex h3" "isHex h4"
      "scanString cs' = Some (raw', rest)"
      "raw = CHR 0x5C # CHR ''u'' # h1 # h2 # h3 # h4 # raw'"
  | (plain) c cs' raw' where
      "cs = c # cs'" "c \<noteq> CHR 0x22" "c \<noteq> CHR 0x5C" "\<not> byte c < 0x20"
      "scanString cs' = Some (raw', rest)" "raw = c # raw'"
proof (cases cs)
  case Nil
  with assms show ?thesis by (simp add: scanString_Nil)
next
  case cs: (Cons c cs0)
  show ?thesis
  proof (cases "c = CHR 0x22")
    case True
    with assms cs have "cs = CHR 0x22 # rest" "raw = []"
      by (simp_all add: scanString_quote)
    then show ?thesis by (rule quote)
  next
    case nq: False
    show ?thesis
    proof (cases "c = CHR 0x5C")
      case bs: True
      show ?thesis
      proof (cases cs0)
        case Nil
        with assms cs bs show ?thesis by (simp add: scanString_escape)
      next
        case cs0: (Cons e cs1)
        show ?thesis
        proof (cases "isSimpleEscape e")
          case True
          with assms cs bs cs0 obtain raw' where
            "scanString cs1 = Some (raw', rest)" "raw = CHR 0x5C # e # raw'"
            by (auto simp add: scanString_escape)
          with cs bs cs0 True show ?thesis by (intro escape) simp_all
        next
          case ne: False
          show ?thesis
          proof (cases "e = CHR ''u''")
            case False
            with assms cs bs cs0 ne show ?thesis by (simp add: scanString_escape)
          next
            case u: True
            from assms cs bs cs0 ne u have
              a: "(case cs1 of
                    h1 # h2 # h3 # h4 # cs'' \<Rightarrow>
                      if isHex h1 \<and> isHex h2 \<and> isHex h3 \<and> isHex h4
                      then map_option
                             (\<lambda>(raw, rest). (CHR 0x5C # CHR ''u'' # h1 # h2 # h3 # h4 # raw, rest))
                             (scanString cs'')
                      else None
                  | _ \<Rightarrow> None) = Some (raw, rest)"
              by (simp add: scanString_escape)
            then obtain h1 h2 h3 h4 cs2 where cs1: "cs1 = h1 # h2 # h3 # h4 # cs2"
              by (cases cs1; simp; cases "tl cs1"; simp; cases "tl (tl cs1)"; simp;
                  cases "tl (tl (tl cs1))"; simp)
            with a have h: "isHex h1" "isHex h2" "isHex h3" "isHex h4"
              by (simp_all split: if_splits)
            with a cs1 obtain raw' where
              "scanString cs2 = Some (raw', rest)"
              "raw = CHR 0x5C # CHR ''u'' # h1 # h2 # h3 # h4 # raw'"
              by auto
            with cs bs cs0 u cs1 h show ?thesis by (intro unicode) simp_all
          qed
        qed
      qed
    next
      case nb: False
      with assms cs nq have lt: "\<not> byte c < 0x20"
        by (auto simp add: scanString_plain split: if_splits)
      with assms cs nq nb obtain raw' where
        "scanString cs0 = Some (raw', rest)" "raw = c # raw'"
        by (auto simp add: scanString_plain)
      with cs nq nb lt show ?thesis by (intro plain) simp_all
    qed
  qed
qed

lemma scanString_u_head:
  assumes "scanString cs = Some (CHR 0x5C # CHR ''u'' # g1 # g2 # g3 # g4 # raw', rest)"
  shows "\<exists>cs'. cs = CHR 0x5C # CHR ''u'' # g1 # g2 # g3 # g4 # cs'
           \<and> scanString cs' = Some (raw', rest)"
  using assms
proof (cases rule: scanString_cases)
  case quote
  then show ?thesis by simp
next
  case (escape e cs' raw'')
  then show ?thesis by (auto simp add: isSimpleEscape_def)
next
  case (unicode h1 h2 h3 h4 cs' raw'')
  then show ?thesis by simp
next
  case (plain c cs' raw'')
  then show ?thesis by simp
qed


lemma scanString_drop_high:
  assumes "scanString cs = Some (raw, rest)" and "k \<le> length raw"
    and "\<forall>b \<in> set (take k raw). 0x80 \<le> byte b"
  shows "scanString (drop k cs) = Some (drop k raw, rest)"
  using assms
proof (induction k arbitrary: cs raw)
  case 0
  then show ?case by simp
next
  case (Suc k)
  from Suc.prems(2) obtain b raw' where raw: "raw = b # raw'"
    by (cases raw) simp_all
  with Suc.prems(3) have b: "0x80 \<le> byte b" by simp
  from Suc.prems(1) show ?case
  proof (cases rule: scanString_cases)
    case quote
    with raw show ?thesis by simp
  next
    case (escape e cs' raw'')
    with raw b byte_backslash_lt show ?thesis by simp
  next
    case (unicode h1 h2 h3 h4 cs' raw'')
    with raw b byte_backslash_lt show ?thesis by simp
  next
    case (plain c cs' raw'')
    with raw have "scanString cs' = Some (raw', rest)" by simp
    moreover from Suc.prems(2) raw have "k \<le> length raw'" by simp
    moreover from Suc.prems(3) raw have "\<forall>b \<in> set (take k raw'). 0x80 \<le> byte b" by simp
    ultimately have "scanString (drop k cs') = Some (drop k raw', rest)"
      by (rule Suc.IH)
    with plain raw show ?thesis by simp
  qed
qed

lemma decodeSequence_width:
  assumes "decodeSequence s0 bs = (rr, w)"
  shows "w = 1 \<or> (w = length bs + 1 \<and> (\<forall>x \<in> set bs. 0x80 \<le> x))"
proof -
  have lo: "0x80 \<le> acceptLo s0" by (simp add: acceptLo_def)
  from assms lo show ?thesis
    by (cases "(s0, bs)" rule: decodeSequence.cases)
      (auto simp add: contb_def split: if_splits)
qed

lemma DecodeRuneInString_width:
  assumes "DecodeRuneInString (c # cs) = (rr, w)"
  shows "1 \<le> w \<and> w - 1 \<le> length cs \<and> (\<forall>b \<in> set (take (w - 1) cs). 0x80 \<le> byte b)"
proof (cases "byte c < 0x80 \<or> byte c < 0xC2 \<or> 0xF4 < byte c
    \<or> length cs < firstSize (byte c) - 1")
  case True
  with assms have "w = 1"
    by (auto simp add: Let_def split: if_splits)
  then show ?thesis by simp
next
  case False
  then have len: "firstSize (byte c) - 1 \<le> length cs" by simp
  from False assms have
    "decodeSequence (byte c) (map byte (take (firstSize (byte c) - 1) cs)) = (rr, w)"
    by (simp add: Let_def)
  from decodeSequence_width [OF this] len show ?thesis
    by auto
qed

lemma unquoteBytes_scanned:
  "scanString cs = Some (raw, rest) \<Longrightarrow> unquoteBytes raw \<noteq> None"
proof (induction "length cs" arbitrary: cs raw rule: less_induct)
  case less
  note ih = less.hyps
  from less.prems show ?case
  proof (cases rule: scanString_cases)
    case quote
    then show ?thesis by (simp add: unquoteBytes.simps)
  next
    case (escape e cs' raw')
    from escape(1,3) have "unquoteBytes raw' \<noteq> None"
      by (intro ih [of cs']) simp_all
    moreover from escape(2) have "e \<noteq> CHR ''u''" "unescape e \<noteq> None"
      by (auto simp add: isSimpleEscape_def unescape_def)
    ultimately show ?thesis
      using escape(4) by (auto simp add: unquoteBytes.simps)
  next
    case (unicode h1 h2 h3 h4 cs' raw')
    from unicode(1,6) have r': "unquoteBytes raw' \<noteq> None"
      by (intro ih [of cs']) simp_all
    have g: "0 \<le> getu4 raw"
      unfolding unicode(7) using unicode(2-5) by (rule getu4_nonneg)
    have d6: "unquoteBytes (drop 6 raw') \<noteq> None"
      if "utf16_DecodeRune (getu4 raw) (getu4 raw') \<noteq> RuneError"
    proof -
      from utf16_DecodeRune_pair [OF that] getu4_shape obtain g1 g2 g3 g4 xs where
        raw': "raw' = CHR 0x5C # CHR ''u'' # g1 # g2 # g3 # g4 # xs"
        by blast
      with unicode(6) scanString_u_head obtain cs'' where
        "cs' = CHR 0x5C # CHR ''u'' # g1 # g2 # g3 # g4 # cs''"
        "scanString cs'' = Some (xs, rest)"
        by blast
      with unicode(1) have "unquoteBytes xs \<noteq> None"
        by (intro ih [of cs'']) simp_all
      with raw' show ?thesis by simp
    qed
    show ?thesis
      unfolding unicode(7)
      using g r' d6 unfolding unicode(7)
      by (subst unquoteBytes.simps) (auto simp add: Let_def)
  next
    case (plain c cs' raw')
    from plain(1,5) have r': "unquoteBytes raw' \<noteq> None"
      by (intro ih [of cs']) simp_all
    have dr: "unquoteBytes (drop (w - 1) raw') \<noteq> None"
      if "DecodeRuneInString (c # raw') = (rr, w)" for rr w
    proof -
      from DecodeRuneInString_width [OF that] have
        w: "w - 1 \<le> length raw'" "\<forall>b \<in> set (take (w - 1) raw'). 0x80 \<le> byte b"
        by simp_all
      from scanString_drop_high [OF plain(5) w]
      have "scanString (drop (w - 1) cs') = Some (drop (w - 1) raw', rest)" .
      then show ?thesis
        using plain(1) by (intro ih [of "drop (w - 1) cs'"]) simp_all
    qed
    show ?thesis
      unfolding plain(6)
      using plain(2-4) r' dr
      by (subst unquoteBytes.simps) (auto split: prod.splits)
  qed
qed

lemma parse_unquotable_aux:
  "(\<forall>d s v r. parseValue n d s = Scanned v r \<longrightarrow> unquotable v)
   \<and> (\<forall>d s vs r. parseElements n d s = Scanned vs r \<longrightarrow> list_all unquotable vs)
   \<and> (\<forall>d s ms r. parseMembers n d s = Scanned ms r \<longrightarrow>
         list_all (\<lambda>m. unquoteBytes (fst m) \<noteq> None \<and> unquotable (snd m)) ms)"
proof (induction n)
  case 0
  show ?case by simp
next
  case (Suc n)
  then have V: "\<And>d s v r. parseValue n d s = Scanned v r \<Longrightarrow> unquotable v"
    and E: "\<And>d s vs r. parseElements n d s = Scanned vs r \<Longrightarrow> list_all unquotable vs"
    and M: "\<And>d s ms r. parseMembers n d s = Scanned ms r \<Longrightarrow>
         list_all (\<lambda>m. unquoteBytes (fst m) \<noteq> None \<and> unquotable (snd m)) ms"
    by blast+
  have v: "unquotable v" if "parseValue (Suc n) d s = Scanned v r" for d s v r
  proof (cases s)
    case Nil
    with that show ?thesis by simp
  next
    case s: (Cons c cs)
    consider (obj) "c = CHR ''{''" | (arr) "c \<noteq> CHR ''{''" "c = CHR ''[''"
      | (str) "c \<noteq> CHR ''{''" "c \<noteq> CHR ''[''" "c = CHR 0x22"
      | (other) "c \<noteq> CHR ''{''" "c \<noteq> CHR ''[''" "c \<noteq> CHR 0x22"
      by blast
    then show ?thesis
    proof cases
      case obj
      with that s show ?thesis
        by (auto split: if_splits list.splits scan.splits dest: M)
    next
      case arr
      with that s show ?thesis
        by (auto split: if_splits list.splits scan.splits dest: E)
    next
      case str
      with that s show ?thesis
        by (auto split: option.splits dest: unquoteBytes_scanned)
    next
      case other
      with that s show ?thesis
        by (auto simp add: scanLiteral_def split: if_splits option.splits)
    qed
  qed
  note uq = unquoteBytes_scanned [simplified] and M' = M [simplified]
  have e: "list_all unquotable vs" if "parseElements (Suc n) d s = Scanned vs r" for d s vs r
    using that
    by (auto split: if_splits list.splits scan.splits dest!: V E)
  have m: "list_all (\<lambda>m. unquoteBytes (fst m) \<noteq> None \<and> unquotable (snd m)) ms"
    if "parseMembers (Suc n) d s = Scanned ms r" for d s ms r
    using that
    by (auto split: if_splits list.splits scan.splits option.splits
        dest!: V M' uq)
  from v e m show ?case by blast
qed

lemma decode_no_phase_error:
  "unquotable t \<Longrightarrow> valueInterface pf t \<noteq> Inl PhaseError"
  "list_all unquotable vs \<Longrightarrow> arrayInterface pf vs \<noteq> Inl PhaseError"
  "list_all (\<lambda>m. unquoteBytes (fst m) \<noteq> None \<and> unquotable (snd m)) ms \<Longrightarrow>
     objectInterface pf ms acc \<noteq> Inl PhaseError"
  by (induction pf t and pf vs and pf ms acc
      rule: valueInterface_arrayInterface_objectInterface.induct)
    (auto split: option.splits sum.splits)

lemma Unmarshal_no_phase_error: "Unmarshal pf data \<noteq> Inl PhaseError"
proof (cases "parseDocument data")
  case (Scanned t rest)
  then obtain r where "parseValue (2 * length data + 2) 0 (skipSpace data) = Scanned t r"
    by (auto simp add: parseDocument_def split: scan.splits if_splits)
  with parse_unquotable_aux [of "2 * length data + 2"] have "unquotable t"
    by blast
  with Scanned decode_no_phase_error(3) [of _ pf "[]"] show ?thesis
    by (cases t) (auto simp add: Unmarshal_def split: sum.splits)
qed (simp_all add: Unmarshal_def)

section \<open>Properties of the entry points\<close>

lemmas resolution_defs =
  NewFlagNotFoundResolutionError_def NewTypeMismatchResolutionError_def
  NewTargetingKeyMissingResolutionError_def NewGeneralResolutionError_def
  noResolutionError_def

lemma translate_missing:
  "evalCtx DistinctIDContextKey = None \<Longrightarrow>
   translateFeatureFlagPayload evalCtx flag = Inr (Inl errMissingTargetKey)"
  by (simp add: translateFeatureFlagPayload_def)

lemma getFeatureFlag_error:
  "client p payload (backend w) = ((res, Some e), b') \<Longrightarrow>
   getFeatureFlag p payload w =
     ((res, False, Some e), w\<lparr>backend := b', calls := calls w @ [payload]\<rparr>)"
  by (simp add: getFeatureFlag_def)

lemma getFeatureFlag_bool:
  "client p payload (backend w) = ((VBool b, None), b') \<Longrightarrow>
   getFeatureFlag p payload w =
     ((VBool b, False, None), w\<lparr>backend := b', calls := calls w @ [payload]\<rparr>)"
  by (simp add: getFeatureFlag_def)

lemma getFeatureFlag_found:
  "client p payload (backend w) = ((res, None), b') \<Longrightarrow> (\<And>b. res \<noteq> VBool b) \<Longrightarrow>
   getFeatureFlag p payload w =
     ((res, True, None), w\<lparr>backend := b', calls := calls w @ [payload]\<rparr>)"
  by (cases res) (auto simp add: getFeatureFlag_def)

text \<open>
  C2. When the evaluation context has no targeting key, \<open>BooleanEvaluation\<close> returns
  the default with a \<open>TargetingKeyMissing\<close> resolution error and reason \<open>Error\<close>,
  while \<open>IntEvaluation\<close>, \<open>FloatEvaluation\<close>, \<open>StringEvaluation\<close> and
  \<open>ObjectEvaluation\<close> return the default with a \<open>General\<close> resolution error and
  reason \<open>Error\<close>. The client is not called: the world is unchanged.
\<close>

theorem missing_targeting_key:
  assumes "evalCtx DistinctIDContextKey = None"
  shows "BooleanEvaluation lib p flag db evalCtx w =
           (Inr \<lparr>Value = db,
                 ResolutionError = \<lparr>code = TargetingKeyMissingCode,
                                     message = ''missing target key in evaluation context''\<rparr>,
                 Reason = ErrorReason\<rparr>, w)
       \<and> IntEvaluation lib p flag di evalCtx w =
           (Inr \<lparr>Value = di,
                 ResolutionError = \<lparr>code = GeneralCode,
                                     message = ''missing target key in evaluation context''\<rparr>,
                 Reason = ErrorReason\<rparr>, w)
       \<and> FloatEvaluation lib p flag df evalCtx w =
           (Inr \<lparr>Value = df,
                 ResolutionError = \<lparr>code = GeneralCode,
                                     message = ''missing target key in evaluation context''\<rparr>,
                 Reason = ErrorReason\<rparr>, w)
       \<and> StringEvaluation lib p flag ds evalCtx w =
           (Inr \<lparr>Value = ds,
                 ResolutionError = \<lparr>code = GeneralCode,
                                     message = ''missing target key in evaluation context''\<rparr>,
                 Reason = ErrorReason\<rparr>, w)
       \<and> ObjectEvaluation lib p flag dobj evalCtx w =
           (Inr \<lparr>Value = dobj,
                 ResolutionError = \<lparr>code = GeneralCode,
                                     message = ''missing target key in evaluation context''\<rparr>,
                 Reason = ErrorReason\<rparr>, w)"
  using assms
  by (simp add: translate_missing BooleanEvaluation_def IntEvaluation_def FloatEvaluation_def
      StringEvaluation_def ObjectEvaluation_def resolution_defs)

theorem missing_targeting_key_witness:
  "emptyCtx DistinctIDContextKey = None
   \<and> BooleanEvaluation testLib (testProvider (VString ''true'', None)) ''bool-flag'' False
         emptyCtx world0 =
       (Inr \<lparr>Value = False,
             ResolutionError = \<lparr>code = TargetingKeyMissingCode,
                                 message = ''missing target key in evaluation context''\<rparr>,
             Reason = ErrorReason\<rparr>, world0)
   \<and> IntEvaluation testLib (testProvider (VString ''20'', None)) ''int-flag'' 10
         emptyCtx world0 =
       (Inr \<lparr>Value = 10,
             ResolutionError = \<lparr>code = GeneralCode,
                                 message = ''missing target key in evaluation context''\<rparr>,
             Reason = ErrorReason\<rparr>, world0)"
proof -
  have h: "emptyCtx DistinctIDContextKey = None"
    by (simp add: emptyCtx_def)
  show ?thesis
    using h by (simp add: missing_targeting_key [where evalCtx = emptyCtx, OF h])
qed

lemmas parseFlagValue_defs =
  parseFlagValue_bool_def parseFlagValue_int64_def parseFlagValue_float64_def
  parseFlagValue_string_def

lemmas evaluation_defs =
  BooleanEvaluation_def IntEvaluation_def FloatEvaluation_def StringEvaluation_def
  ObjectEvaluation_def

text \<open>
  C1. In every evaluation entry point (boolean, integer, float, string, object), when the
  client answers with a boolean and no error, whether \<open>true\<close> or \<open>false\<close>, the
  lookup reports the flag as not found and the entry point returns the caller's default,
  reason \<open>Default\<close> and a \<open>FlagNotFound\<close> resolution error whose message is the
  quoted flag name followed by \<open>not found\<close>. The client is only called once the
  context has been mapped to a payload, hence the first assumption. The quoting is that
  of \<open>%q\<close>; a name of plain bytes is put between double quotes as it is.
\<close>

theorem boolean_reply_is_not_found:
  assumes "translateFeatureFlagPayload evalCtx flag = Inr (Inr payload)"
    and "client p payload (backend w) = ((VBool b, None), b')"
  shows "getFeatureFlag p payload w =
           ((VBool b, False, None), w\<lparr>backend := b', calls := calls w @ [payload]\<rparr>)
       \<and> BooleanEvaluation lib p flag db evalCtx w =
           (Inr \<lparr>Value = db,
                 ResolutionError = \<lparr>code = FlagNotFoundCode,
                                     message = Quote (IsPrintTable lib) flag @ '' not found''\<rparr>,
                 Reason = DefaultReason\<rparr>,
            w\<lparr>backend := b', calls := calls w @ [payload]\<rparr>)
       \<and> IntEvaluation lib p flag di evalCtx w =
           (Inr \<lparr>Value = di,
                 ResolutionError = \<lparr>code = FlagNotFoundCode,
                                     message = Quote (IsPrintTable lib) flag @ '' not found''\<rparr>,
                 Reason = DefaultReason\<rparr>,
            w\<lparr>backend := b', calls := calls w @ [payload]\<rparr>)
       \<and> FloatEvaluation lib p flag df evalCtx w =
           (Inr \<lparr>Value = df,
                 ResolutionError = \<lparr>code = FlagNotFoundCode,
                                     message = Quote (IsPrintTable lib) flag @ '' not found''\<rparr>,
                 Reason = DefaultReason\<rparr>,
            w\<lparr>backend := b', calls := calls w @ [payload]\<rparr>)
       \<and> StringEvaluation lib p flag ds evalCtx w =
           (Inr \<lparr>Value = ds,
                 ResolutionError = \<lparr>code = FlagNotFoundCode,
                                     message = Quote (IsPrintTable lib) flag @ '' not found''\<rparr>,
                 Reason = DefaultReason\<rparr>,
            w\<lparr>backend := b', calls := calls w @ [payload]\<rparr>)
       \<and> ObjectEvaluation lib p flag dobj evalCtx w =
           (Inr \<lparr>Value = dobj,
                 ResolutionError = \<lparr>code = FlagNotFoundCode,
                                     message = Quote (IsPrintTable lib) flag @ '' not found''\<rparr>,
                 Reason = DefaultReason\<rparr>,
            w\<lparr>backend := b', calls := calls w @ [payload]\<rparr>)
       \<and> (list_all plainByte flag \<longrightarrow>
            Quote (IsPrintTable lib) flag = CHR 0x22 # flag @ [CHR 0x22])"
  using assms
  by (simp add: evaluation_defs getFeatureFlag_bool resolution_defs Quote_plain)

lemma translate_userCtx:
  "translateFeatureFlagPayload userCtx flag = Inr (Inr (userPayload flag))"
  by (simp add: translateFeatureFlagPayload_def userCtx_def userPayload_def
      DistinctIDContextKey_def GroupsContextKey_def PropertiesContextKey_def)

lemma testProvider_reply:
  "client (testProvider reply) (userPayload flag) (backend world0) = (reply, 1)"
  by (simp add: testProvider_def replyingClient_def world0_def)

theorem boolean_reply_is_not_found_witness:
  "BooleanEvaluation testLib (testProvider (VBool True, None)) ''bool-flag'' False userCtx world0 =
     (Inr \<lparr>Value = False,
           ResolutionError = \<lparr>code = FlagNotFoundCode,
                               message = CHR 0x22 # ''bool-flag'' @ [CHR 0x22] @ '' not found''\<rparr>,
           Reason = DefaultReason\<rparr>,
      world1 ''bool-flag'')
   \<and> StringEvaluation testLib (testProvider (VBool False, None)) ''string-flag'' ''test'' userCtx world0 =
     (Inr \<lparr>Value = ''test'',
           ResolutionError = \<lparr>code = FlagNotFoundCode,
                               message = CHR 0x22 # ''string-flag'' @ [CHR 0x22] @ '' not found''\<rparr>,
           Reason = DefaultReason\<rparr>,
      world1 ''string-flag'')"
proof -
  have q1: "list_all plainByte ''bool-flag''" and q2: "list_all plainByte ''string-flag''"
    by (simp_all add: plainByte_def byte_def)
  note t1 = boolean_reply_is_not_found
    [OF translate_userCtx testProvider_reply, where flag = "''bool-flag''" and lib = testLib]
  note t2 = boolean_reply_is_not_found
    [OF translate_userCtx testProvider_reply, where flag = "''string-flag''" and lib = testLib]
  show ?thesis
    using q1 q2 t1 [where b = True] t2 [where b = False]
    by (simp add: world0_def world1_def)
qed

lemma getFeatureFlag_string:
  "client p payload (backend w) = ((VString s, None), b') \<Longrightarrow>
   getFeatureFlag p payload w =
     ((VString s, True, None), w\<lparr>backend := b', calls := calls w @ [payload]\<rparr>)"
  by (simp add: getFeatureFlag_def)

text \<open>
  C8. When the context maps to a payload and the client returns an error, every entry
  point returns the caller's default with a \<open>General\<close> resolution error that carries
  the error's message, and reason \<open>Error\<close>. The client was called exactly once, with
  that payload: the log of calls grew by this one entry and the client's state is the one
  after that call.
\<close>

theorem transport_error_is_general:
  assumes "translateFeatureFlagPayload evalCtx flag = Inr (Inr payload)"
    and "client p payload (backend w) = ((res, Some e), b')"
  shows "BooleanEvaluation lib p flag db evalCtx w =
           (Inr \<lparr>Value = db,
                 ResolutionError = \<lparr>code = GeneralCode, message = e\<rparr>,
                 Reason = ErrorReason\<rparr>,
            w\<lparr>backend := b', calls := calls w @ [payload]\<rparr>)
       \<and> IntEvaluation lib p flag di evalCtx w =
           (Inr \<lparr>Value = di,
                 ResolutionError = \<lparr>code = GeneralCode, message = e\<rparr>,
                 Reason = ErrorReason\<rparr>,
            w\<lparr>backend := b', calls := calls w @ [payload]\<rparr>)
       \<and> FloatEvaluation lib p flag df evalCtx w =
           (Inr \<lparr>Value = df,
                 ResolutionError = \<lparr>code = GeneralCode, message = e\<rparr>,
                 Reason = ErrorReason\<rparr>,
            w\<lparr>backend := b', calls := calls w @ [payload]\<rparr>)
       \<and> StringEvaluation lib p flag ds evalCtx w =
           (Inr \<lparr>Value = ds,
                 ResolutionError = \<lparr>code = GeneralCode, message = e\<rparr>,
                 Reason = ErrorReason\<rparr>,
            w\<lparr>backend := b', calls := calls w @ [payload]\<rparr>)
       \<and> ObjectEvaluation lib p flag dobj evalCtx w =
           (Inr \<lparr>Value = dobj,
                 ResolutionError = \<lparr>code = GeneralCode, message = e\<rparr>,
                 Reason = ErrorReason\<rparr>,
            w\<lparr>backend := b', calls := calls w @ [payload]\<rparr>)"
  using assms
  by (simp add: evaluation_defs getFeatureFlag_error resolution_defs)

theorem transport_error_is_general_witness:
  "FloatEvaluation testLib (testProvider (VNil, Some ''connection refused'')) ''float-flag'' (1, - 1)
       userCtx world0 =
     (Inr \<lparr>Value = (1, - 1),
           ResolutionError = \<lparr>code = GeneralCode, message = ''connection refused''\<rparr>,
           Reason = ErrorReason\<rparr>,
      world1 ''float-flag'')
   \<and> length (calls (world1 ''float-flag'')) = length (calls world0) + 1
   \<and> backend (world1 ''float-flag'') = 1"
  using transport_error_is_general
    [OF translate_userCtx testProvider_reply, where lib = testLib and flag = "''float-flag''"
      and res = VNil and e = "''connection refused''"]
  by (simp add: world0_def world1_def)

text \<open>
  C3, as amended. For a found string \<open>s\<close> that does not parse as the expected type,
  the boolean, integer and float entry points return the caller's default, reason
  \<open>Error\<close> and a \<open>TypeMismatch\<close> resolution error whose message is the \<open>%q\<close>
  quoting of \<open>s\<close> followed by \<open>is not a boolean\<close>, \<open>is not a int\<close> or
  \<open>is not a float\<close>. The quoting is \<open>s\<close> between double quotes when \<open>s\<close> consists
  of printable ASCII bytes other than the double quote and the backslash.
\<close>

theorem unparsable_value_is_type_mismatch:
  assumes "translateFeatureFlagPayload evalCtx flag = Inr (Inr payload)"
    and "client p payload (backend w) = ((VString s, None), b')"
  shows "(ParseBool s = None \<longrightarrow>
            BooleanEvaluation lib p flag db evalCtx w =
              (Inr \<lparr>Value = db,
                    ResolutionError =
                      \<lparr>code = TypeMismatchCode,
                       message = Quote (IsPrintTable lib) s @ '' is not a boolean''\<rparr>,
                    Reason = ErrorReason\<rparr>,
               w\<lparr>backend := b', calls := calls w @ [payload]\<rparr>))
       \<and> (ParseInt s = Inl err \<longrightarrow>
            IntEvaluation lib p flag di evalCtx w =
              (Inr \<lparr>Value = di,
                    ResolutionError =
                      \<lparr>code = TypeMismatchCode,
                       message = Quote (IsPrintTable lib) s @ '' is not a int''\<rparr>,
                    Reason = ErrorReason\<rparr>,
               w\<lparr>backend := b', calls := calls w @ [payload]\<rparr>))
       \<and> (ParseFloat lib s = None \<longrightarrow>
            FloatEvaluation lib p flag df evalCtx w =
              (Inr \<lparr>Value = df,
                    ResolutionError =
                      \<lparr>code = TypeMismatchCode,
                       message = Quote (IsPrintTable lib) s @ '' is not a float''\<rparr>,
                    Reason = ErrorReason\<rparr>,
               w\<lparr>backend := b', calls := calls w @ [payload]\<rparr>))
       \<and> (list_all plainByte s \<longrightarrow> Quote (IsPrintTable lib) s = CHR 0x22 # s @ [CHR 0x22])"
  using assms
  by (simp add: evaluation_defs getFeatureFlag_string parseFlagValue_defs resolution_defs
      Quote_plain)

lemma ParseBool_invalid: "ParseBool ''invalid boolean'' = None"
  by (simp add: ParseBool_def)

lemma ParseInt_invalid: "ParseInt ''invalid int'' = Inl ErrSyntax"
  by (simp add: ParseInt_def ParseUint_def isDigit_def byte_def)

lemma ParseFloat_invalid: "ParseFloat testLib ''invalid float'' = None"
  by (simp add: testLib_def)

theorem unparsable_value_is_type_mismatch_witness:
  "BooleanEvaluation testLib (testProvider (VString ''invalid boolean'', None)) ''bool-flag'' False
       userCtx world0 =
     (Inr \<lparr>Value = False,
           ResolutionError =
             \<lparr>code = TypeMismatchCode,
              message = CHR 0x22 # ''invalid boolean'' @ [CHR 0x22] @ '' is not a boolean''\<rparr>,
           Reason = ErrorReason\<rparr>,
      world1 ''bool-flag'')
   \<and> IntEvaluation testLib (testProvider (VString ''invalid int'', None)) ''int-flag'' 10
       userCtx world0 =
     (Inr \<lparr>Value = 10,
           ResolutionError =
             \<lparr>code = TypeMismatchCode,
              message = CHR 0x22 # ''invalid int'' @ [CHR 0x22] @ '' is not a int''\<rparr>,
           Reason = ErrorReason\<rparr>,
      world1 ''int-flag'')
   \<and> FloatEvaluation testLib (testProvider (VString ''invalid float'', None)) ''float-flag'' (1, - 1)
       userCtx world0 =
     (Inr \<lparr>Value = (1, - 1),
           ResolutionError =
             \<lparr>code = TypeMismatchCode,
              message = CHR 0x22 # ''invalid float'' @ [CHR 0x22] @ '' is not a float''\<rparr>,
           Reason = ErrorReason\<rparr>,
      world1 ''float-flag'')"
proof -
  have q: "list_all plainByte ''invalid boolean''" "list_all plainByte ''invalid int''"
    "list_all plainByte ''invalid float''"
    by (simp_all add: plainByte_def byte_def)
  note t = unparsable_value_is_type_mismatch
    [OF translate_userCtx testProvider_reply, where lib = testLib]
  show ?thesis
    using q ParseBool_invalid ParseInt_invalid ParseFloat_invalid
      t [where s = "''invalid boolean''" and flag = "''bool-flag''"]
      t [where s = "''invalid int''" and flag = "''int-flag''" and err = ErrSyntax]
      t [where s = "''invalid float''" and flag = "''float-flag''"]
    by (simp add: world0_def world1_def)
qed

text \<open>
  C3 as stated asks for the raw value between double quotes. For the value \<open>a"b\<close>,
  which is not a boolean, the message quotes it as \<open>"a\"b"\<close>: the inner double quote
  is escaped.
\<close>

theorem raw_value_in_quotes_counterexample:
  "ParseBool [CHR ''a'', CHR 0x22, CHR ''b''] = None
   \<and> BooleanEvaluation testLib (testProvider (VString [CHR ''a'', CHR 0x22, CHR ''b''], None))
         ''bool-flag'' False userCtx world0 =
       (Inr \<lparr>Value = False,
             ResolutionError =
               \<lparr>code = TypeMismatchCode,
                message = [CHR 0x22, CHR ''a'', CHR 0x5C, CHR 0x22, CHR ''b'', CHR 0x22]
                            @ '' is not a boolean''\<rparr>,
             Reason = ErrorReason\<rparr>,
        world1 ''bool-flag'')
   \<and> [CHR 0x22, CHR ''a'', CHR 0x5C, CHR 0x22, CHR ''b'', CHR 0x22] @ '' is not a boolean''
       \<noteq> [CHR 0x22] @ [CHR ''a'', CHR 0x22, CHR ''b''] @ [CHR 0x22] @ '' is not a boolean''"
proof -
  have p: "ParseBool [CHR ''a'', CHR 0x22, CHR ''b''] = None"
    by (simp add: ParseBool_def)
  have q: "Quote (IsPrintTable testLib) [CHR ''a'', CHR 0x22, CHR ''b'']
             = [CHR 0x22, CHR ''a'', CHR 0x5C, CHR 0x22, CHR ''b'', CHR 0x22]"
    by code_simp
  have "BooleanEvaluation testLib (testProvider (VString [CHR ''a'', CHR 0x22, CHR ''b''], None))
          ''bool-flag'' False userCtx world0 =
        (Inr \<lparr>Value = False,
              ResolutionError =
                \<lparr>code = TypeMismatchCode,
                 message = [CHR 0x22, CHR ''a'', CHR 0x5C, CHR 0x22, CHR ''b'', CHR 0x22]
                             @ '' is not a boolean''\<rparr>,
              Reason = ErrorReason\<rparr>,
         world0\<lparr>backend := 1, calls := calls world0 @ [userPayload ''bool-flag'']\<rparr>)"
    using p q
    by (simp add: BooleanEvaluation_def translate_userCtx
        getFeatureFlag_string [OF testProvider_reply] parseFlagValue_bool_def resolution_defs)
  then show ?thesis
    using p by (simp add: world0_def world1_def)
qed

text \<open>
  C4. When the context maps to a payload and the client returns a string that parses
  (for the object entry point: decodes) as the expected type, the entry point returns the
  parsed value, for the string entry point the string itself, with reason
  \<open>TargetingMatch\<close> and the zero resolution error.
\<close>

theorem well_formed_value_is_returned:
  assumes "translateFeatureFlagPayload evalCtx flag = Inr (Inr payload)"
    and "client p payload (backend w) = ((VString s, None), b')"
  shows "(ParseBool s = Some b \<longrightarrow>
            BooleanEvaluation lib p flag db evalCtx w =
              (Inr \<lparr>Value = b,
                    ResolutionError = \<lparr>code = NoErrorCode, message = []\<rparr>,
                    Reason = TargetingMatchReason\<rparr>,
               w\<lparr>backend := b', calls := calls w @ [payload]\<rparr>))
       \<and> (ParseInt s = Inr i \<longrightarrow>
            IntEvaluation lib p flag di evalCtx w =
              (Inr \<lparr>Value = i,
                    ResolutionError = \<lparr>code = NoErrorCode, message = []\<rparr>,
                    Reason = TargetingMatchReason\<rparr>,
               w\<lparr>backend := b', calls := calls w @ [payload]\<rparr>))
       \<and> (ParseFloat lib s = Some f \<longrightarrow>
            FloatEvaluation lib p flag df evalCtx w =
              (Inr \<lparr>Value = f,
                    ResolutionError = \<lparr>code = NoErrorCode, message = []\<rparr>,
                    Reason = TargetingMatchReason\<rparr>,
               w\<lparr>backend := b', calls := calls w @ [payload]\<rparr>))
       \<and> StringEvaluation lib p flag ds evalCtx w =
              (Inr \<lparr>Value = s,
                    ResolutionError = \<lparr>code = NoErrorCode, message = []\<rparr>,
                    Reason = TargetingMatchReason\<rparr>,
               w\<lparr>backend := b', calls := calls w @ [payload]\<rparr>)
       \<and> (Unmarshal (ParseFloat lib) s = Inr obj \<longrightarrow>
            ObjectEvaluation lib p flag dobj evalCtx w =
              (Inr \<lparr>Value = VMap obj,
                    ResolutionError = \<lparr>code = NoErrorCode, message = []\<rparr>,
                    Reason = TargetingMatchReason\<rparr>,
               w\<lparr>backend := b', calls := calls w @ [payload]\<rparr>))"
  using assms
  by (simp add: evaluation_defs getFeatureFlag_string parseFlagValue_defs resolution_defs)

lemma ParseBool_true: "ParseBool ''true'' = Some True"
  by (simp add: ParseBool_def)

lemma ParseInt_20: "ParseInt ''20'' = Inr 20"
  by code_simp

lemma ParseFloat_half: "ParseFloat testLib ''0.5'' = Some (1, - 1)"
  by (simp add: testLib_def)

lemma Unmarshal_empty_object: "Unmarshal (ParseFloat testLib) ''{}'' = Inr (Some [])"
  by code_simp

theorem well_formed_value_is_returned_witness:
  "BooleanEvaluation testLib (testProvider (VString ''true'', None)) ''bool-flag'' False
       userCtx world0 =
     (Inr \<lparr>Value = True,
           ResolutionError = \<lparr>code = NoErrorCode, message = []\<rparr>,
           Reason = TargetingMatchReason\<rparr>,
      world1 ''bool-flag'')
   \<and> IntEvaluation testLib (testProvider (VString ''20'', None)) ''int-flag'' 10
       userCtx world0 =
     (Inr \<lparr>Value = 20,
           ResolutionError = \<lparr>code = NoErrorCode, message = []\<rparr>,
           Reason = TargetingMatchReason\<rparr>,
      world1 ''int-flag'')
   \<and> FloatEvaluation testLib (testProvider (VString ''0.5'', None)) ''float-flag'' (105, - 1)
       userCtx world0 =
     (Inr \<lparr>Value = (1, - 1),
           ResolutionError = \<lparr>code = NoErrorCode, message = []\<rparr>,
           Reason = TargetingMatchReason\<rparr>,
      world1 ''float-flag'')
   \<and> StringEvaluation testLib (testProvider (VString ''another test'', None)) ''string-flag''
       ''test'' userCtx world0 =
     (Inr \<lparr>Value = ''another test'',
           ResolutionError = \<lparr>code = NoErrorCode, message = []\<rparr>,
           Reason = TargetingMatchReason\<rparr>,
      world1 ''string-flag'')
   \<and> ObjectEvaluation testLib (testProvider (VString ''{}'', None)) ''object-flag''
       VNil userCtx world0 =
     (Inr \<lparr>Value = VMap (Some []),
           ResolutionError = \<lparr>code = NoErrorCode, message = []\<rparr>,
           Reason = TargetingMatchReason\<rparr>,
      world1 ''object-flag'')"
proof -
  note t = well_formed_value_is_returned
    [OF translate_userCtx testProvider_reply, where lib = testLib]
  show ?thesis
    using ParseBool_true ParseInt_20 ParseFloat_half Unmarshal_empty_object
      t [where s = "''true''" and flag = "''bool-flag''" and b = True]
      t [where s = "''20''" and flag = "''int-flag''" and i = 20]
      t [where s = "''0.5''" and flag = "''float-flag''" and f = "(1, - 1)"]
      t [where s = "''another test''" and flag = "''string-flag''"]
      t [where s = "''{}''" and flag = "''object-flag''" and obj = "Some []"]
    by (simp add: world0_def world1_def)
qed

lemma parseDocument_jane:
  \<open>parseDocument ''{"name": "jane doe", "age": 52.5}'' =
     Scanned (JObject [(''name'', JString ''jane doe''), (''age'', JNumber ''52.5'')]) []\<close>
  by code_simp

lemma parseDocument_invalid: "parseDocument ''{invalid json'' = Invalid"
  by code_simp

lemma unquoteBytes_examples:
  "unquoteBytes ''name'' = Some ''name''"
  "unquoteBytes ''jane doe'' = Some ''jane doe''"
  "unquoteBytes ''age'' = Some ''age''"
  by code_simp+

lemma Unmarshal_jane:
  assumes "pf ''52.5'' = Some f"
  shows \<open>Unmarshal pf ''{"name": "jane doe", "age": 52.5}'' =
     Inr (Some [(''name'', VString ''jane doe''), (''age'', VFloat64 f)])\<close>
  using assms
  by (simp add: Unmarshal_def parseDocument_jane unquoteBytes_examples del: unquoteBytes.simps)

lemma Unmarshal_invalid: "Unmarshal pf ''{invalid json'' = Inl SyntaxError"
  by (simp add: Unmarshal_def parseDocument_invalid)

lemma ObjectEvaluation_string:
  assumes "translateFeatureFlagPayload evalCtx flag = Inr (Inr payload)"
    and "client p payload (backend w) = ((VString s, None), b')"
  shows "ObjectEvaluation lib p flag dobj evalCtx w =
     (case Unmarshal (ParseFloat lib) s of
        Inl e \<Rightarrow>
          (Inr \<lparr>Value = dobj,
                ResolutionError = \<lparr>code = TypeMismatchCode, message = ''invalid JSON as flag value''\<rparr>,
                Reason = ErrorReason\<rparr>,
           w\<lparr>backend := b', calls := calls w @ [payload]\<rparr>)
      | Inr obj \<Rightarrow>
          (Inr \<lparr>Value = VMap obj,
                ResolutionError = \<lparr>code = NoErrorCode, message = []\<rparr>,
                Reason = TargetingMatchReason\<rparr>,
           w\<lparr>backend := b', calls := calls w @ [payload]\<rparr>))"
  using assms
  by (simp add: ObjectEvaluation_def getFeatureFlag_string resolution_defs split: sum.split)

text \<open>
  C5. \<open>ObjectEvaluation\<close> decodes the found string as a JSON object into a map from
  strings to arbitrary values: when \<open>json.Unmarshal\<close> succeeds, the value is the decoded
  map, with reason \<open>TargetingMatch\<close> and no error; when it fails, the result is the
  default with a \<open>TypeMismatch\<close> error of message \<open>invalid JSON as flag value\<close> and
  reason \<open>Error\<close>. The input \<open>{"name": "jane doe", "age": 52.5}\<close> gives the map of
  \<open>name\<close> to the string \<open>jane doe\<close> and of \<open>age\<close> to the \<open>float64\<close> that
  \<open>ParseFloat\<close> reads from \<open>52.5\<close>; the input \<open>{invalid json\<close> fails.
\<close>

theorem ObjectEvaluation_decodes_json:
  assumes "translateFeatureFlagPayload evalCtx flag = Inr (Inr payload)"
    and "client p payload (backend w) = ((VString s, None), b')"
  shows \<open>(Unmarshal (ParseFloat lib) s = Inr obj \<longrightarrow>
            ObjectEvaluation lib p flag dobj evalCtx w =
              (Inr \<lparr>Value = VMap obj,
                    ResolutionError = \<lparr>code = NoErrorCode, message = []\<rparr>,
                    Reason = TargetingMatchReason\<rparr>,
               w\<lparr>backend := b', calls := calls w @ [payload]\<rparr>))
       \<and> (Unmarshal (ParseFloat lib) s = Inl e \<longrightarrow>
            ObjectEvaluation lib p flag dobj evalCtx w =
              (Inr \<lparr>Value = dobj,
                    ResolutionError = \<lparr>code = TypeMismatchCode,
                                        message = ''invalid JSON as flag value''\<rparr>,
                    Reason = ErrorReason\<rparr>,
               w\<lparr>backend := b', calls := calls w @ [payload]\<rparr>))
       \<and> (s = ''{"name": "jane doe", "age": 52.5}'' \<and> ParseFloat lib ''52.5'' = Some f \<longrightarrow>
            ObjectEvaluation lib p flag dobj evalCtx w =
              (Inr \<lparr>Value = VMap (Some [(''name'', VString ''jane doe''), (''age'', VFloat64 f)]),
                    ResolutionError = \<lparr>code = NoErrorCode, message = []\<rparr>,
                    Reason = TargetingMatchReason\<rparr>,
               w\<lparr>backend := b', calls := calls w @ [payload]\<rparr>))
       \<and> (s = ''{invalid json'' \<longrightarrow>
            ObjectEvaluation lib p flag dobj evalCtx w =
              (Inr \<lparr>Value = dobj,
                    ResolutionError = \<lparr>code = TypeMismatchCode,
                                        message = ''invalid JSON as flag value''\<rparr>,
                    Reason = ErrorReason\<rparr>,
               w\<lparr>backend := b', calls := calls w @ [payload]\<rparr>))\<close>
proof -
  note ev = ObjectEvaluation_string [OF assms, of lib dobj]
  have jane: "ParseFloat lib ''52.5'' = Some f \<Longrightarrow>
      Unmarshal (ParseFloat lib) ''{\"name\": \"jane doe\", \"age\": 52.5}'' =
        Inr (Some [(''name'', VString ''jane doe''), (''age'', VFloat64 f)])"
    by (rule Unmarshal_jane)
  show ?thesis
    using jane by (auto simp add: ev Unmarshal_invalid)
qed

theorem ObjectEvaluation_decodes_json_witness:
  \<open>ObjectEvaluation testLib (testProvider (VString ''{"name": "jane doe", "age": 52.5}'', None))
       ''object-flag'' (VMap (Some [(''name'', VString ''john doe''), (''age'', VInt64 35)]))
       userCtx world0 =
     (Inr \<lparr>Value = VMap (Some [(''name'', VString ''jane doe''), (''age'', VFloat64 (105, - 1))]),
           ResolutionError = \<lparr>code = NoErrorCode, message = []\<rparr>,
           Reason = TargetingMatchReason\<rparr>,
      world1 ''object-flag'')
   \<and> ObjectEvaluation testLib (testProvider (VString ''{invalid json'', None))
       ''object-flag'' (VMap (Some [(''name'', VString ''john doe''), (''age'', VInt64 35)]))
       userCtx world0 =
     (Inr \<lparr>Value = VMap (Some [(''name'', VString ''john doe''), (''age'', VInt64 35)]),
           ResolutionError = \<lparr>code = TypeMismatchCode, message = ''invalid JSON as flag value''\<rparr>,
           Reason = ErrorReason\<rparr>,
      world1 ''object-flag'')\<close>
proof -
  have f: "ParseFloat testLib ''52.5'' = Some (105, - 1)"
    by (simp add: testLib_def)
  note t = ObjectEvaluation_decodes_json
    [OF translate_userCtx testProvider_reply, where lib = testLib and flag = "''object-flag''"]
  show ?thesis
    using f
      t [where s = "''{\"name\": \"jane doe\", \"age\": 52.5}''" and f = "(105, - 1)"]
      t [where s = "''{invalid json''"]
    by (simp add: world0_def world1_def)
qed

lemma parseDocument_rest: "parseDocument s = Scanned t rest \<Longrightarrow> rest = []"
  by (auto simp add: parseDocument_def split: scan.splits if_splits)

text \<open>
  C10. Let the found string not be a JSON object: the scanner does not accept it with an
  object as its top-level value. This holds for every valid JSON text whose top-level
  value is an array, a number, a boolean, a string or \<open>null\<close>. Then
  \<open>ObjectEvaluation\<close> returns the default with a \<open>TypeMismatch\<close> error of message
  \<open>invalid JSON as flag value\<close>, except when the text is valid with top-level value
  \<open>null\<close> (white space around it allowed): then decoding succeeds and the result is the
  nil map with reason \<open>TargetingMatch\<close> and no error. The witness runs the inputs
  \<open>[1,2]\<close>, \<open>5\<close>, \<open>true\<close>, \<open>"text"\<close> and \<open>null\<close>.
\<close>

theorem ObjectEvaluation_non_object_json:
  assumes "translateFeatureFlagPayload evalCtx flag = Inr (Inr payload)"
    and "client p payload (backend w) = ((VString s, None), b')"
    and "\<And>ms rest. parseDocument s \<noteq> Scanned (JObject ms) rest"
  shows "(parseDocument s = Scanned JNull [] \<longrightarrow>
            ObjectEvaluation lib p flag dobj evalCtx w =
              (Inr \<lparr>Value = VMap None,
                    ResolutionError = \<lparr>code = NoErrorCode, message = []\<rparr>,
                    Reason = TargetingMatchReason\<rparr>,
               w\<lparr>backend := b', calls := calls w @ [payload]\<rparr>))
       \<and> (parseDocument s \<noteq> Scanned JNull [] \<longrightarrow>
            ObjectEvaluation lib p flag dobj evalCtx w =
              (Inr \<lparr>Value = dobj,
                    ResolutionError = \<lparr>code = TypeMismatchCode,
                                        message = ''invalid JSON as flag value''\<rparr>,
                    Reason = ErrorReason\<rparr>,
               w\<lparr>backend := b', calls := calls w @ [payload]\<rparr>))"
proof (cases "parseDocument s")
  case (Scanned t rest)
  with parseDocument_rest have doc: "parseDocument s = Scanned t []"
    by blast
  show ?thesis
  proof (cases t)
    case (JObject ms)
    with assms(3) [of ms "[]"] doc show ?thesis by simp
  qed (simp_all add: ObjectEvaluation_string [OF assms(1,2)] Unmarshal_def doc)
qed (simp_all add: ObjectEvaluation_string [OF assms(1,2)] Unmarshal_def)

lemma parseDocument_examples:
  \<open>parseDocument ''[1,2]'' = Scanned (JArray [JNumber ''1'', JNumber ''2'']) []\<close>
  \<open>parseDocument ''5'' = Scanned (JNumber ''5'') []\<close>
  \<open>parseDocument ''true'' = Scanned (JBool True) []\<close>
  \<open>parseDocument ''"text"'' = Scanned (JString ''text'') []\<close>
  \<open>parseDocument ''null'' = Scanned JNull []\<close>
  by code_simp+

theorem ObjectEvaluation_non_object_json_witness:
  \<open>ObjectEvaluation testLib (testProvider (VString ''[1,2]'', None)) ''object-flag'' VNil
       userCtx world0 =
     (Inr \<lparr>Value = VNil,
           ResolutionError = \<lparr>code = TypeMismatchCode, message = ''invalid JSON as flag value''\<rparr>,
           Reason = ErrorReason\<rparr>,
      world1 ''object-flag'')
   \<and> ObjectEvaluation testLib (testProvider (VString ''5'', None)) ''object-flag'' VNil
       userCtx world0 =
     (Inr \<lparr>Value = VNil,
           ResolutionError = \<lparr>code = TypeMismatchCode, message = ''invalid JSON as flag value''\<rparr>,
           Reason = ErrorReason\<rparr>,
      world1 ''object-flag'')
   \<and> ObjectEvaluation testLib (testProvider (VString ''true'', None)) ''object-flag'' VNil
       userCtx world0 =
     (Inr \<lparr>Value = VNil,
           ResolutionError = \<lparr>code = TypeMismatchCode, message = ''invalid JSON as flag value''\<rparr>,
           Reason = ErrorReason\<rparr>,
      world1 ''object-flag'')
   \<and> ObjectEvaluation testLib (testProvider (VString ''"text"'', None)) ''object-flag'' VNil
       userCtx world0 =
     (Inr \<lparr>Value = VNil,
           ResolutionError = \<lparr>code = TypeMismatchCode, message = ''invalid JSON as flag value''\<rparr>,
           Reason = ErrorReason\<rparr>,
      world1 ''object-flag'')
   \<and> ObjectEvaluation testLib (testProvider (VString ''null'', None)) ''object-flag'' VNil
       userCtx world0 =
     (Inr \<lparr>Value = VMap None,
           ResolutionError = \<lparr>code = NoErrorCode, message = []\<rparr>,
           Reason = TargetingMatchReason\<rparr>,
      world1 ''object-flag'')\<close>
proof -
  note t = ObjectEvaluation_non_object_json
    [OF translate_userCtx testProvider_reply, where lib = testLib and flag = "''object-flag''"
      and dobj = VNil]
  show ?thesis
    using t [where s = "''[1,2]''"] t [where s = "''5''"] t [where s = "''true''"]
      t [where s = "''\"text\"''"] t [where s = "''null''"]
    by (simp add: parseDocument_examples world0_def world1_def)
qed

text \<open>
  C6. Let the client return, without error, a value that is neither a boolean nor a
  string. The boolean, integer, float and string entry points return the default with
  the \<open>TypeMismatch\<close> error of \<open>parseFlagValue\<close>'s string check and reason
  \<open>Error\<close>. \<open>ObjectEvaluation\<close> does not go through \<open>parseFlagValue\<close>: its
  unchecked assertion \<open>res.(string)\<close> panics. The claim, which promises the
  \<open>TypeMismatch\<close> result for the object entry point too, fails there.
\<close>

theorem non_string_value:
  assumes "translateFeatureFlagPayload evalCtx flag = Inr (Inr payload)"
    and "client p payload (backend w) = ((res, None), b')"
    and "\<And>b. res \<noteq> VBool b"
    and "\<And>s. res \<noteq> VString s"
  shows "BooleanEvaluation lib p flag db evalCtx w =
           (Inr \<lparr>Value = db,
                 ResolutionError = \<lparr>code = TypeMismatchCode,
                                     message = Sprint lib res @ '' is not a string''\<rparr>,
                 Reason = ErrorReason\<rparr>,
            w\<lparr>backend := b', calls := calls w @ [payload]\<rparr>)
       \<and> IntEvaluation lib p flag di evalCtx w =
           (Inr \<lparr>Value = di,
                 ResolutionError = \<lparr>code = TypeMismatchCode,
                                     message = Sprint lib res @ '' is not a string''\<rparr>,
                 Reason = ErrorReason\<rparr>,
            w\<lparr>backend := b', calls := calls w @ [payload]\<rparr>)
       \<and> FloatEvaluation lib p flag df evalCtx w =
           (Inr \<lparr>Value = df,
                 ResolutionError = \<lparr>code = TypeMismatchCode,
                                     message = Sprint lib res @ '' is not a string''\<rparr>,
                 Reason = ErrorReason\<rparr>,
            w\<lparr>backend := b', calls := calls w @ [payload]\<rparr>)
       \<and> StringEvaluation lib p flag ds evalCtx w =
           (Inr \<lparr>Value = ds,
                 ResolutionError = \<lparr>code = TypeMismatchCode,
                                     message = Sprint lib res @ '' is not a string''\<rparr>,
                 Reason = ErrorReason\<rparr>,
            w\<lparr>backend := b', calls := calls w @ [payload]\<rparr>)
       \<and> ObjectEvaluation lib p flag dobj evalCtx w =
           (Inl InterfaceConversion, w\<lparr>backend := b', calls := calls w @ [payload]\<rparr>)"
proof -
  note g = getFeatureFlag_found [OF assms(2,3)]
  show ?thesis
    using assms(1,4)
    by (cases res)
      (auto simp add: evaluation_defs g parseFlagValue_defs resolution_defs)
qed

theorem non_string_value_witness:
  "IntEvaluation testLib (testProvider (VInt64 42, None)) ''int-flag'' 10 userCtx world0 =
     (Inr \<lparr>Value = 10,
           ResolutionError = \<lparr>code = TypeMismatchCode, message = ''42 is not a string''\<rparr>,
           Reason = ErrorReason\<rparr>,
      world1 ''int-flag'')
   \<and> ObjectEvaluation testLib (testProvider (VInt64 42, None)) ''object-flag'' VNil userCtx world0 =
     (Inl InterfaceConversion, world1 ''object-flag'')"
proof -
  have s: "Sprint testLib (VInt64 42) = ''42''"
    by code_simp
  note t = non_string_value
    [OF translate_userCtx testProvider_reply, where lib = testLib and res = "VInt64 42"]
  show ?thesis
    using s t [where flag = "''int-flag''"] t [where flag = "''object-flag''"]
    by (simp add: world0_def world1_def)
qed

lemma translate_invalid_groups:
  assumes "evalCtx DistinctIDContextKey = Some k"
    and "evalCtx GroupsContextKey = Some v" and "asGroups v = None"
  shows "translateFeatureFlagPayload evalCtx flag = Inr (Inl errInvalidGroups)"
  using assms by (simp add: translateFeatureFlagPayload_def)

lemma translate_invalid_properties:
  assumes "evalCtx DistinctIDContextKey = Some k"
    and "case evalCtx GroupsContextKey of None \<Rightarrow> True | Some v \<Rightarrow> asGroups v \<noteq> None"
    and "evalCtx PropertiesContextKey = Some v" and "asPostHogProperties v = None"
  shows "translateFeatureFlagPayload evalCtx flag = Inr (Inl errInvalidProperties)"
  using assms by (auto simp add: translateFeatureFlagPayload_def split: option.splits)

lemma translate_succeeds:
  assumes "evalCtx DistinctIDContextKey = Some (VString s)"
    and "case evalCtx GroupsContextKey of None \<Rightarrow> True | Some v \<Rightarrow> asGroups v \<noteq> None"
    and "case evalCtx PropertiesContextKey of None \<Rightarrow> True | Some v \<Rightarrow> asPostHogProperties v \<noteq> None"
  shows "\<exists>payload. translateFeatureFlagPayload evalCtx flag = Inr (Inr payload)
           \<and> Key payload = flag \<and> DistinctId payload = s"
  using assms by (auto simp add: translateFeatureFlagPayload_def split: option.splits)

lemma mapping_error_is_general:
  assumes "translateFeatureFlagPayload evalCtx flag = Inr (Inl err)"
    and "err \<noteq> errMissingTargetKey"
  shows "BooleanEvaluation lib p flag db evalCtx w =
           (Inr \<lparr>Value = db,
                 ResolutionError = \<lparr>code = GeneralCode, message = Error err\<rparr>,
                 Reason = ErrorReason\<rparr>, w)
       \<and> IntEvaluation lib p flag di evalCtx w =
           (Inr \<lparr>Value = di,
                 ResolutionError = \<lparr>code = GeneralCode, message = Error err\<rparr>,
                 Reason = ErrorReason\<rparr>, w)
       \<and> FloatEvaluation lib p flag df evalCtx w =
           (Inr \<lparr>Value = df,
                 ResolutionError = \<lparr>code = GeneralCode, message = Error err\<rparr>,
                 Reason = ErrorReason\<rparr>, w)
       \<and> StringEvaluation lib p flag ds evalCtx w =
           (Inr \<lparr>Value = ds,
                 ResolutionError = \<lparr>code = GeneralCode, message = Error err\<rparr>,
                 Reason = ErrorReason\<rparr>, w)
       \<and> ObjectEvaluation lib p flag dobj evalCtx w =
           (Inr \<lparr>Value = dobj,
                 ResolutionError = \<lparr>code = GeneralCode, message = Error err\<rparr>,
                 Reason = ErrorReason\<rparr>, w)"
  using assms by (simp add: evaluation_defs resolution_defs)

lemma getFeatureFlag_calls:
  "calls (snd (getFeatureFlag p payload w)) = calls w @ [payload]"
  by (auto simp add: getFeatureFlag_def Let_def split: prod.splits option.splits any.splits)

lemma BooleanEvaluation_calls:
  assumes "translateFeatureFlagPayload evalCtx flag = Inr (Inr payload)"
  shows "calls (snd (BooleanEvaluation lib p flag db evalCtx w)) = calls w @ [payload]"
  using assms getFeatureFlag_calls [of p payload w]
  by (auto simp add: BooleanEvaluation_def split: prod.splits option.splits sum.splits)

lemma IntEvaluation_calls:
  assumes "translateFeatureFlagPayload evalCtx flag = Inr (Inr payload)"
  shows "calls (snd (IntEvaluation lib p flag di evalCtx w)) = calls w @ [payload]"
  using assms getFeatureFlag_calls [of p payload w]
  by (auto simp add: IntEvaluation_def split: prod.splits option.splits sum.splits)

lemma FloatEvaluation_calls:
  assumes "translateFeatureFlagPayload evalCtx flag = Inr (Inr payload)"
  shows "calls (snd (FloatEvaluation lib p flag df evalCtx w)) = calls w @ [payload]"
  using assms getFeatureFlag_calls [of p payload w]
  by (auto simp add: FloatEvaluation_def split: prod.splits option.splits sum.splits)

lemma StringEvaluation_calls:
  assumes "translateFeatureFlagPayload evalCtx flag = Inr (Inr payload)"
  shows "calls (snd (StringEvaluation lib p flag ds evalCtx w)) = calls w @ [payload]"
  using assms getFeatureFlag_calls [of p payload w]
  by (auto simp add: StringEvaluation_def split: prod.splits option.splits sum.splits)

lemma ObjectEvaluation_calls:
  assumes "translateFeatureFlagPayload evalCtx flag = Inr (Inr payload)"
  shows "calls (snd (ObjectEvaluation lib p flag dobj evalCtx w)) = calls w @ [payload]"
  using assms getFeatureFlag_calls [of p payload w]
  by (auto simp add: ObjectEvaluation_def split: prod.splits option.splits sum.splits any.splits)

text \<open>
  C7, as amended. Let the evaluation context contain the targeting key. If the
  \<open>groups\<close> entry is present and not a \<open>posthog.Groups\<close>, or the \<open>properties\<close> entry
  is present and not a \<open>PostHogProperties\<close>, then the mapping fails (the groups are
  checked first) and every entry point returns the default with a \<open>General\<close>
  resolution error and reason \<open>Error\<close>, without calling the client. If both entries are
  absent or of the right type and the targeting key is a string, the mapping succeeds
  with a payload for that flag and that key, and every entry point goes on to call the
  client with it.
\<close>

theorem context_mapping_checks_types:
  assumes "evalCtx DistinctIDContextKey = Some k"
  shows "(let badGroups =
              (case evalCtx GroupsContextKey of None \<Rightarrow> False | Some v \<Rightarrow> asGroups v = None);
            badProperties =
              (case evalCtx PropertiesContextKey of
                 None \<Rightarrow> False
               | Some v \<Rightarrow> asPostHogProperties v = None);
            err = (if badGroups then errInvalidGroups else errInvalidProperties)
        in
          (badGroups \<or> badProperties \<longrightarrow>
             translateFeatureFlagPayload evalCtx flag = Inr (Inl err)
             \<and> BooleanEvaluation lib p flag db evalCtx w =
                 (Inr \<lparr>Value = db,
                       ResolutionError = \<lparr>code = GeneralCode, message = Error err\<rparr>,
                       Reason = ErrorReason\<rparr>, w)
             \<and> IntEvaluation lib p flag di evalCtx w =
                 (Inr \<lparr>Value = di,
                       ResolutionError = \<lparr>code = GeneralCode, message = Error err\<rparr>,
                       Reason = ErrorReason\<rparr>, w)
             \<and> FloatEvaluation lib p flag df evalCtx w =
                 (Inr \<lparr>Value = df,
                       ResolutionError = \<lparr>code = GeneralCode, message = Error err\<rparr>,
                       Reason = ErrorReason\<rparr>, w)
             \<and> StringEvaluation lib p flag ds evalCtx w =
                 (Inr \<lparr>Value = ds,
                       ResolutionError = \<lparr>code = GeneralCode, message = Error err\<rparr>,
                       Reason = ErrorReason\<rparr>, w)
             \<and> ObjectEvaluation lib p flag dobj evalCtx w =
                 (Inr \<lparr>Value = dobj,
                       ResolutionError = \<lparr>code = GeneralCode, message = Error err\<rparr>,
                       Reason = ErrorReason\<rparr>, w))
          \<and> (\<not> badGroups \<and> \<not> badProperties \<and> k = VString s \<longrightarrow>
               (\<exists>payload.
                  translateFeatureFlagPayload evalCtx flag = Inr (Inr payload)
                  \<and> Key payload = flag \<and> DistinctId payload = s
                  \<and> calls (snd (BooleanEvaluation lib p flag db evalCtx w)) = calls w @ [payload]
                  \<and> calls (snd (IntEvaluation lib p flag di evalCtx w)) = calls w @ [payload]
                  \<and> calls (snd (FloatEvaluation lib p flag df evalCtx w)) = calls w @ [payload]
                  \<and> calls (snd (StringEvaluation lib p flag ds evalCtx w)) = calls w @ [payload]
                  \<and> calls (snd (ObjectEvaluation lib p flag dobj evalCtx w))
                      = calls w @ [payload])))"
proof -
  define badGroups where
    "badGroups = (case evalCtx GroupsContextKey of None \<Rightarrow> False | Some v \<Rightarrow> asGroups v = None)"
  define badProperties where
    "badProperties =
       (case evalCtx PropertiesContextKey of None \<Rightarrow> False | Some v \<Rightarrow> asPostHogProperties v = None)"
  define err where "err = (if badGroups then errInvalidGroups else errInvalidProperties)"
  have ne: "err \<noteq> errMissingTargetKey"
    by (simp add: err_def)
  have fails: "translateFeatureFlagPayload evalCtx flag = Inr (Inl err)"
    if "badGroups \<or> badProperties"
  proof (cases badGroups)
    case True
    then obtain v where "evalCtx GroupsContextKey = Some v" "asGroups v = None"
      by (auto simp add: badGroups_def split: option.splits)
    with assms True show ?thesis
      by (simp add: err_def translate_invalid_groups)
  next
    case False
    with that have "badProperties" by simp
    then obtain v where v: "evalCtx PropertiesContextKey = Some v" "asPostHogProperties v = None"
      by (auto simp add: badProperties_def split: option.splits)
    from False have "case evalCtx GroupsContextKey of None \<Rightarrow> True | Some v \<Rightarrow> asGroups v \<noteq> None"
      by (auto simp add: badGroups_def split: option.splits)
    with assms v False show ?thesis
      by (simp add: err_def translate_invalid_properties)
  qed
  have succeeds: "\<exists>payload.
      translateFeatureFlagPayload evalCtx flag = Inr (Inr payload)
      \<and> Key payload = flag \<and> DistinctId payload = s
      \<and> calls (snd (BooleanEvaluation lib p flag db evalCtx w)) = calls w @ [payload]
      \<and> calls (snd (IntEvaluation lib p flag di evalCtx w)) = calls w @ [payload]
      \<and> calls (snd (FloatEvaluation lib p flag df evalCtx w)) = calls w @ [payload]
      \<and> calls (snd (StringEvaluation lib p flag ds evalCtx w)) = calls w @ [payload]
      \<and> calls (snd (ObjectEvaluation lib p flag dobj evalCtx w)) = calls w @ [payload]"
    if "\<not> badGroups" "\<not> badProperties" "k = VString s"
  proof -
    from that(1) have g: "case evalCtx GroupsContextKey of None \<Rightarrow> True | Some v \<Rightarrow> asGroups v \<noteq> None"
      by (auto simp add: badGroups_def split: option.splits)
    from that(2) have c: "case evalCtx PropertiesContextKey of None \<Rightarrow> True
        | Some v \<Rightarrow> asPostHogProperties v \<noteq> None"
      by (auto simp add: badProperties_def split: option.splits)
    from assms that(3) have "evalCtx DistinctIDContextKey = Some (VString s)"
      by simp
    from translate_succeeds [OF this g c, of flag] obtain payload where
      pl: "translateFeatureFlagPayload evalCtx flag = Inr (Inr payload)"
        "Key payload = flag" "DistinctId payload = s"
      by blast
    then show ?thesis
      by (simp add: BooleanEvaluation_calls IntEvaluation_calls FloatEvaluation_calls
          StringEvaluation_calls ObjectEvaluation_calls)
  qed
  show ?thesis
    unfolding Let_def badGroups_def [symmetric] badProperties_def [symmetric] err_def [symmetric]
    using fails succeeds mapping_error_is_general [OF _ ne, of evalCtx flag lib p db w di df ds dobj]
    by blast
qed

lemmas context_key_defs = DistinctIDContextKey_def GroupsContextKey_def PropertiesContextKey_def

lemma translate_fullCtx:
  "translateFeatureFlagPayload fullCtx flag = Inr (Inr (fullPayload flag))"
  by (simp add: translateFeatureFlagPayload_def fullCtx_def fullPayload_def context_key_defs
      asGroups_def asPostHogProperties_def)

theorem context_mapping_checks_types_witness:
  "BooleanEvaluation testLib (testProvider (VString ''true'', None)) ''bool-flag'' False
       plainGroupsCtx world0 =
     (Inr \<lparr>Value = False,
           ResolutionError = \<lparr>code = GeneralCode,
                               message = ''invalid groups in evaluation context''\<rparr>,
           Reason = ErrorReason\<rparr>, world0)
   \<and> StringEvaluation testLib (testProvider (VString ''another test'', None)) ''string-flag''
       ''test'' stringPropertiesCtx world0 =
     (Inr \<lparr>Value = ''test'',
           ResolutionError = \<lparr>code = GeneralCode,
                               message = ''invalid properties in evaluation context''\<rparr>,
           Reason = ErrorReason\<rparr>, world0)
   \<and> translateFeatureFlagPayload fullCtx ''int-flag'' = Inr (Inr (fullPayload ''int-flag''))
   \<and> calls (snd (IntEvaluation testLib (testProvider (VString ''20'', None)) ''int-flag'' 10
         fullCtx world0)) = [fullPayload ''int-flag'']"
proof -
  have k1: "plainGroupsCtx DistinctIDContextKey = Some (VString ''12345'')"
    and k2: "stringPropertiesCtx DistinctIDContextKey = Some (VString ''12345'')"
    and k3: "fullCtx DistinctIDContextKey = Some (VString ''12345'')"
    by (simp_all add: plainGroupsCtx_def stringPropertiesCtx_def fullCtx_def context_key_defs)
  have c1: "plainGroupsCtx GroupsContextKey = Some (VMap (Some [(''company'', VString ''acme'')]))"
    and c2: "stringPropertiesCtx GroupsContextKey = None"
      "stringPropertiesCtx PropertiesContextKey = Some (VString ''plan=pro'')"
    and c3: "fullCtx GroupsContextKey = Some (VGroups (Some [(''company'', VString ''acme'')]))"
      "fullCtx PropertiesContextKey =
         Some (VPostHogProperties (Some [(''company'', Some [(''plan'', VString ''pro'')])])
                 (Some [(''beta'', VBool True)]))"
    by (simp_all add: plainGroupsCtx_def stringPropertiesCtx_def fullCtx_def context_key_defs)
  note t1 = context_mapping_checks_types
    [where evalCtx = plainGroupsCtx, OF k1, where lib = testLib and flag = "''bool-flag''"
      and db = False and w = world0 and p = "testProvider (VString ''true'', None)"]
  note t2 = context_mapping_checks_types
    [where evalCtx = stringPropertiesCtx, OF k2, where lib = testLib and flag = "''string-flag''"
      and ds = "''test''" and w = world0 and p = "testProvider (VString ''another test'', None)"]
  note t3 = context_mapping_checks_types
    [where evalCtx = fullCtx, OF k3, where lib = testLib and flag = "''int-flag''"
      and di = 10 and w = world0 and p = "testProvider (VString ''20'', None)"
      and s = "''12345''" and db = False and df = "(1, - 1)" and ds = "[]" and dobj = VNil]
  have a: "BooleanEvaluation testLib (testProvider (VString ''true'', None)) ''bool-flag'' False
       plainGroupsCtx world0 =
     (Inr \<lparr>Value = False,
           ResolutionError = \<lparr>code = GeneralCode,
                               message = ''invalid groups in evaluation context''\<rparr>,
           Reason = ErrorReason\<rparr>, world0)"
    using t1 by (simp add: c1 asGroups_def)
  have b: "StringEvaluation testLib (testProvider (VString ''another test'', None)) ''string-flag''
       ''test'' stringPropertiesCtx world0 =
     (Inr \<lparr>Value = ''test'',
           ResolutionError = \<lparr>code = GeneralCode,
                               message = ''invalid properties in evaluation context''\<rparr>,
           Reason = ErrorReason\<rparr>, world0)"
    using t2 by (simp add: c2 asPostHogProperties_def)
  from t3 have "\<exists>payload.
      translateFeatureFlagPayload fullCtx ''int-flag'' = Inr (Inr payload)
      \<and> calls (snd (IntEvaluation testLib (testProvider (VString ''20'', None)) ''int-flag'' 10
            fullCtx world0)) = calls world0 @ [payload]"
    by (simp add: c3 asGroups_def asPostHogProperties_def) blast
  then obtain payload where
    "translateFeatureFlagPayload fullCtx ''int-flag'' = Inr (Inr payload)"
    "calls (snd (IntEvaluation testLib (testProvider (VString ''20'', None)) ''int-flag'' 10
         fullCtx world0)) = calls world0 @ [payload]"
    by blast
  then have c: "translateFeatureFlagPayload fullCtx ''int-flag'' = Inr (Inr (fullPayload ''int-flag''))
      \<and> calls (snd (IntEvaluation testLib (testProvider (VString ''20'', None)) ''int-flag'' 10
         fullCtx world0)) = [fullPayload ''int-flag'']"
    by (simp add: translate_fullCtx world0_def)
  from a b c show ?thesis by simp
qed

text \<open>
  C7 as stated lets the targeting key be any value. With the number 42 as the targeting
  key and neither groups nor properties, the mapping does not succeed: the assertion
  \<open>distinctID.(string)\<close> panics, and so does the entry point.
\<close>

theorem non_string_targeting_key_counterexample:
  "numericKeyCtx DistinctIDContextKey = Some (VInt64 42)
   \<and> numericKeyCtx GroupsContextKey = None
   \<and> numericKeyCtx PropertiesContextKey = None
   \<and> translateFeatureFlagPayload numericKeyCtx ''bool-flag'' = Inl InterfaceConversion
   \<and> BooleanEvaluation testLib (testProvider (VString ''true'', None)) ''bool-flag'' False
         numericKeyCtx world0 = (Inl InterfaceConversion, world0)"
  by (simp add: numericKeyCtx_def context_key_defs translateFeatureFlagPayload_def
      BooleanEvaluation_def)

text \<open>
  The round trip of C9 for the boolean and the integer coercion: \<open>parseFlagValue\<close>
  reads back what \<open>FormatBool\<close> and \<open>FormatInt\<close> write. The float coercion is not
  covered: \<open>ParseFloat\<close> is a parameter here.
\<close>

lemma parseFlagValue_bool_FormatBool:
  "parseFlagValue_bool lib (VString (FormatBool b)) = Inr b"
  by (simp add: parseFlagValue_bool_def ParseBool_FormatBool)

lemma parseFlagValue_int64_FormatInt:
  "parseFlagValue_int64 lib (VString (FormatInt i)) = Inr i"
  by (simp add: parseFlagValue_int64_def ParseInt_FormatInt)

end
